theory Spec2Isabelle
  imports Main
begin

section \<open>Data model\<close>

text \<open>
  The repository holds three variants of the room server: \<^verbatim>\<open>server.js\<close> and two
  further server files (called variant 000 and variant 001 below, after
  \<^verbatim>\<open>unnamed/part_000\<close> and \<^verbatim>\<open>unnamed/part_001\<close>). Their rules engines and
  handlers are embedded side by side; a definition without suffix is the one of
  \<^verbatim>\<open>server.js\<close>, the suffixes \<open>_000\<close> and \<open>_001\<close> name the other two files.
\<close>

datatype slot = A | B

datatype size_name = small | medium | large

text \<open>
  A piece is the object \<^verbatim>\<open>{owner, size}\<close> of \<^verbatim>\<open>server.js\<close>; the variants 000 and
  001 add the display field \<^verbatim>\<open>color\<close>, which is absent (\<open>None\<close>) in \<^verbatim>\<open>server.js\<close>.
\<close>

record piece =
  owner :: slot
  piece_size :: size_name
  color :: "string option"

text \<open>
  A cell is a JavaScript array used as a stack: \<^verbatim>\<open>push\<close> appends at the end,
  \<^verbatim>\<open>pop\<close> removes the last element, \<^verbatim>\<open>at(-1)\<close> reads it. The board is an array
  of rows, each an array of cells.
\<close>

type_synonym stack = "piece list"
type_synonym board = "stack list list"

definition wf_board :: "board \<Rightarrow> bool" where
  "wf_board b = (length b = 3 \<and> list_all (\<lambda>row. length row = 3) b)"

text \<open>\<^verbatim>\<open>const SIZE_VAL = { small:1, medium:2, large:3 }\<close>\<close>

fun SIZE_VAL :: "size_name \<Rightarrow> nat" where
  "SIZE_VAL small = 1"
| "SIZE_VAL medium = 2"
| "SIZE_VAL large = 3"

text \<open>
  \<^verbatim>\<open>board[r][c]\<close>: reading a row outside the array gives \<^verbatim>\<open>undefined\<close>, and
  indexing \<^verbatim>\<open>undefined\<close> raises a TypeError; a column outside the row gives
  \<^verbatim>\<open>undefined\<close>, and every use the servers make of the cell (\<^verbatim>\<open>.at\<close>,
  \<^verbatim>\<open>.length\<close>, \<^verbatim>\<open>.push\<close>, \<^verbatim>\<open>.pop\<close>) then raises a TypeError. \<open>None\<close> is that
  TypeError.
\<close>

definition cell_at :: "board \<Rightarrow> nat \<Rightarrow> nat \<Rightarrow> stack option" where
  "cell_at b r c =
     (if r < length b then (if c < length (b ! r) then Some (b ! r ! c) else None) else None)"

text \<open>\<^verbatim>\<open>stack.at(-1)\<close>: the last element, \<^verbatim>\<open>undefined\<close> on the empty array.\<close>

definition at_last :: "'a list \<Rightarrow> 'a option" where
  "at_last xs = (if xs = [] then None else Some (last xs))"

section \<open>Rules engine\<close>

subsection \<open>\<^verbatim>\<open>server.js\<close>\<close>

text \<open>
  \<^verbatim>\<open>const top = board[r][c].at(-1); return !top || SIZE_VAL[size] > SIZE_VAL[top.size];\<close>
\<close>

definition canPlaceAt :: "board \<Rightarrow> nat \<Rightarrow> nat \<Rightarrow> size_name \<Rightarrow> bool option" where
  "canPlaceAt b r c sz =
     (case cell_at b r c of
        None \<Rightarrow> None
      | Some st \<Rightarrow>
          (let top = at_last st
           in Some (case top of None \<Rightarrow> True
                    | Some t \<Rightarrow> SIZE_VAL sz > SIZE_VAL (piece_size t))))"

text \<open>The eight lines, in the order of the array literal \<^verbatim>\<open>L\<close>.\<close>

definition L :: "(nat \<times> nat) list list" where
  "L = [[(0,0),(0,1),(0,2)], [(1,0),(1,1),(1,2)], [(2,0),(2,1),(2,2)],
        [(0,0),(1,0),(2,0)], [(0,1),(1,1),(2,1)], [(0,2),(1,2),(2,2)],
        [(0,0),(1,1),(2,2)], [(0,2),(1,1),(2,0)]]"

text \<open>\<^verbatim>\<open>board[r][c].at(-1)?.owner\<close>\<close>

definition top_owner :: "board \<Rightarrow> nat \<times> nat \<Rightarrow> slot option option" where
  "top_owner b rc =
     (case cell_at b (fst rc) (snd rc) of
        None \<Rightarrow> None
      | Some st \<Rightarrow> Some (map_option owner (at_last st)))"

text \<open>\<^verbatim>\<open>line.map(f)\<close> where \<open>f\<close> may raise: the first raise aborts the map.\<close>

fun map_raise :: "('a \<Rightarrow> 'b option) \<Rightarrow> 'a list \<Rightarrow> 'b list option" where
  "map_raise f [] = Some []"
| "map_raise f (x # xs) =
     (case f x of
        None \<Rightarrow> None
      | Some y \<Rightarrow> (case map_raise f xs of None \<Rightarrow> None | Some ys \<Rightarrow> Some (y # ys)))"

text \<open>\<^verbatim>\<open>o[0]\<close>: \<^verbatim>\<open>undefined\<close> on the empty array.\<close>

definition first_elem :: "'a option list \<Rightarrow> 'a option" where
  "first_elem os = (case os of [] \<Rightarrow> None | x # _ \<Rightarrow> x)"

text \<open>
  \<^verbatim>\<open>for(const line of L){ const o=line.map(...); if(o.every(x=>x&&x===o[0])) return o[0]; }
  return null;\<close>
\<close>

fun winner_scan :: "board \<Rightarrow> (nat \<times> nat) list list \<Rightarrow> slot option option" where
  "winner_scan b [] = Some None"
| "winner_scan b (line # rest) =
     (case map_raise (top_owner b) line of
        None \<Rightarrow> None
      | Some os \<Rightarrow>
          if list_all (\<lambda>x. x \<noteq> None \<and> x = first_elem os) os then Some (first_elem os)
          else winner_scan b rest)"

definition checkWinner :: "board \<Rightarrow> slot option option" where
  "checkWinner b = winner_scan b L"

subsection \<open>Variant 000\<close>

text \<open>
  \<^verbatim>\<open>const targetStack = board[toR][toC]; const topPiece = targetStack.at(-1);
  const pieceVal = SIZE_VAL[pieceSizeName];
  if (!topPiece) return true;
  if (pieceVal > SIZE_VAL[topPiece.size]) return true;
  return false;\<close>
\<close>

definition canPlaceAt_000 :: "board \<Rightarrow> nat \<Rightarrow> nat \<Rightarrow> size_name \<Rightarrow> bool option" where
  "canPlaceAt_000 b toR toC pieceSizeName =
     (case cell_at b toR toC of
        None \<Rightarrow> None
      | Some targetStack \<Rightarrow>
          (let topPiece = at_last targetStack; pieceVal = SIZE_VAL pieceSizeName
           in case topPiece of
                None \<Rightarrow> Some True
              | Some tp \<Rightarrow> if pieceVal > SIZE_VAL (piece_size tp) then Some True else Some False))"

definition lines_000 :: "(nat \<times> nat) list list" where
  "lines_000 = [[(0,0),(0,1),(0,2)], [(1,0),(1,1),(1,2)], [(2,0),(2,1),(2,2)],
                [(0,0),(1,0),(2,0)], [(0,1),(1,1),(2,1)], [(0,2),(1,2),(2,2)],
                [(0,0),(1,1),(2,2)], [(0,2),(1,1),(2,0)]]"

text \<open>\<^verbatim>\<open>const stack = board[r][c]; return stack.length ? stack.at(-1).owner : null;\<close>\<close>

definition topOwner_000 :: "board \<Rightarrow> nat \<times> nat \<Rightarrow> slot option option" where
  "topOwner_000 b rc =
     (case cell_at b (fst rc) (snd rc) of
        None \<Rightarrow> None
      | Some stack \<Rightarrow> Some (if length stack \<noteq> 0 then Some (owner (last stack)) else None))"

fun winner_scan_000 :: "board \<Rightarrow> (nat \<times> nat) list list \<Rightarrow> slot option option" where
  "winner_scan_000 b [] = Some None"
| "winner_scan_000 b (line # rest) =
     (case map_raise (topOwner_000 b) line of
        None \<Rightarrow> None
      | Some topOwners \<Rightarrow>
          if list_all (\<lambda>x. x \<noteq> None \<and> x = first_elem topOwners) topOwners
          then Some (first_elem topOwners)
          else winner_scan_000 b rest)"

definition checkWinner_000 :: "board \<Rightarrow> slot option option" where
  "checkWinner_000 b = winner_scan_000 b lines_000"

subsection \<open>Variant 001\<close>

definition canPlaceAt_001 :: "board \<Rightarrow> nat \<Rightarrow> nat \<Rightarrow> size_name \<Rightarrow> bool option" where
  "canPlaceAt_001 b toR toC pieceSizeName =
     (case cell_at b toR toC of
        None \<Rightarrow> None
      | Some targetStack \<Rightarrow>
          (let topPiece = at_last targetStack; pieceVal = SIZE_VAL pieceSizeName
           in case topPiece of
                None \<Rightarrow> Some True
              | Some tp \<Rightarrow> if pieceVal > SIZE_VAL (piece_size tp) then Some True else Some False))"

definition lines_001 :: "(nat \<times> nat) list list" where
  "lines_001 = [[(0,0),(0,1),(0,2)], [(1,0),(1,1),(1,2)], [(2,0),(2,1),(2,2)],
                [(0,0),(1,0),(2,0)], [(0,1),(1,1),(2,1)], [(0,2),(1,2),(2,2)],
                [(0,0),(1,1),(2,2)], [(0,2),(1,1),(2,0)]]"

definition topOwner_001 :: "board \<Rightarrow> nat \<times> nat \<Rightarrow> slot option option" where
  "topOwner_001 b rc =
     (case cell_at b (fst rc) (snd rc) of
        None \<Rightarrow> None
      | Some stack \<Rightarrow> Some (if length stack \<noteq> 0 then Some (owner (last stack)) else None))"

fun winner_scan_001 :: "board \<Rightarrow> (nat \<times> nat) list list \<Rightarrow> slot option option" where
  "winner_scan_001 b [] = Some None"
| "winner_scan_001 b (line # rest) =
     (case map_raise (topOwner_001 b) line of
        None \<Rightarrow> None
      | Some topOwners \<Rightarrow>
          if list_all (\<lambda>x. x \<noteq> None \<and> x = first_elem topOwners) topOwners
          then Some (first_elem topOwners)
          else winner_scan_001 b rest)"

definition checkWinner_001 :: "board \<Rightarrow> slot option option" where
  "checkWinner_001 b = winner_scan_001 b lines_001"


section \<open>Room state, connections and events\<close>

type_synonym conn_id = string
type_synonym room_id = string

text \<open>
  \<^verbatim>\<open>socket.data.playerSlot\<close>: \<^verbatim>\<open>"A"\<close>, \<^verbatim>\<open>"B"\<close>, \<^verbatim>\<open>"spectator"\<close>, or
  \<^verbatim>\<open>null\<close>/\<^verbatim>\<open>undefined\<close> (before a join, after a leave).
\<close>

datatype role = PlayerSlot slot | spectator | no_slot

text \<open>
  A player \<^verbatim>\<open>{id, name, color, pieces}\<close>; \<^verbatim>\<open>pieces\<close> is the object indexed by
  the size name. \<^verbatim>\<open>color\<close> exists in the variants 000 and 001 only.
\<close>

record player =
  player_id :: conn_id
  player_name :: "string option"
  player_color :: "string option"
  pieces :: "size_name \<Rightarrow> int"

definition full_hand :: "size_name \<Rightarrow> int" where
  "full_hand = (\<lambda>_. 2)"

text \<open>The fields every variant's room state has.\<close>

record game =
  board :: board
  players :: "slot \<Rightarrow> player option"
  currentTurn :: "slot option"
  winner :: "slot option"
  started :: bool

text \<open>
  The room state of variant 000, and the fields of the room state of \<^verbatim>\<open>server.js\<close>
  that are created with the room. The decision stored for a slot is the string the
  client sent, \<open>None\<close> is \<^verbatim>\<open>null\<close>. (Variant 000 also has a chat log, which none
  of the handlers below changes.)
\<close>

record room = game +
  watchQueue :: "conn_id list"
  postDecisions :: "slot \<Rightarrow> string option"

text \<open>
  The room state of \<^verbatim>\<open>server.js\<close>. Its \<^verbatim>\<open>forceEndGame\<close> indexes the
  \<^verbatim>\<open>players\<close> object with the \<^verbatim>\<open>socket.data.playerSlot\<close> of the sender,
  whatever it is, so that the object can get properties under other keys than
  \<^verbatim>\<open>A\<close> and \<^verbatim>\<open>B\<close> (\<^verbatim>\<open>players["spectator"]\<close>, \<^verbatim>\<open>players["undefined"]\<close>).
  \<open>players_extra\<close> holds the properties under those keys; only
  \<^verbatim>\<open>forceEndGame\<close> reads and writes them.
\<close>

record room_srv = room +
  players_extra :: "role \<Rightarrow> player option"

text \<open>The room state of variant 001: the queue holds \<^verbatim>\<open>{id, name}\<close> entries.\<close>

record spec_entry =
  spec_id :: conn_id
  spec_name :: "string option"

record room_001 = game +
  spectators :: "spec_entry list"
  pendingDecisions :: "slot \<Rightarrow> string option"

text \<open>\<^verbatim>\<open>socket.data\<close> of a connection.\<close>

record sock =
  sock_roomID :: "room_id option"
  sock_name :: "string option"
  playerSlot :: role

text \<open>
  Outbound events, without their payload snapshots (\<^verbatim>\<open>sanitizeState\<close> is a pure
  function of the room at the time of the emit): the target is a room
  (\<^verbatim>\<open>io.to(roomID).emit\<close>), one connection (\<^verbatim>\<open>socket.emit\<close>, \<^verbatim>\<open>io.to(id).emit\<close>),
  or a room without the sender (\<^verbatim>\<open>socket.broadcast.to(roomID).emit\<close>).
\<close>

datatype target = ToRoom room_id | ToSocket conn_id | ToRoomExcept room_id conn_id

datatype message =
    start_game | update_state | game_over slot | assign role
  | postgame_update role "string option" | opponent_decided slot
  | redirect_home | chat_init | chat_message

type_synonym event = "target \<times> message"

text \<open>
  The process state: the registry \<^verbatim>\<open>rooms\<close>, the connected sockets
  (\<^verbatim>\<open>io.sockets.sockets\<close>, a map from connection id to socket), the transport's
  room membership (\<^verbatim>\<open>io.sockets.adapter.rooms\<close>, from room identifier to the set of
  member connections; a room without entry is the empty set) and the log of events
  emitted so far, oldest first. A room object is only ever reached through
  \<^verbatim>\<open>rooms[roomID]\<close>, so the identifier stands for the reference.
\<close>

record 'r world =
  rooms :: "room_id \<rightharpoonup> 'r"
  sockets :: "conn_id \<rightharpoonup> sock"
  adapter_rooms :: "room_id \<Rightarrow> conn_id set"
  emitted :: "event list"

text \<open>\<^verbatim>\<open>socket.join(roomID)\<close> and \<^verbatim>\<open>socket.leave(roomID)\<close>.\<close>

definition socket_join :: "conn_id \<Rightarrow> room_id \<Rightarrow> 'r world \<Rightarrow> 'r world" where
  "socket_join sid rid w = w\<lparr>adapter_rooms := (adapter_rooms w)(rid := insert sid (adapter_rooms w rid))\<rparr>"

definition socket_leave :: "conn_id \<Rightarrow> room_id \<Rightarrow> 'r world \<Rightarrow> 'r world" where
  "socket_leave sid rid w = w\<lparr>adapter_rooms := (adapter_rooms w)(rid := adapter_rooms w rid - {sid})\<rparr>"

definition emit :: "target \<Rightarrow> message \<Rightarrow> 'r world \<Rightarrow> 'r world" where
  "emit t m w = w\<lparr>emitted := emitted w @ [(t, m)]\<rparr>"

definition upd_room :: "room_id \<Rightarrow> ('r \<Rightarrow> 'r) \<Rightarrow> 'r world \<Rightarrow> 'r world" where
  "upd_room rid f w =
     (case rooms w rid of None \<Rightarrow> w | Some r \<Rightarrow> w\<lparr>rooms := (rooms w)(rid \<mapsto> f r)\<rparr>)"

definition upd_sock :: "conn_id \<Rightarrow> (sock \<Rightarrow> sock) \<Rightarrow> 'r world \<Rightarrow> 'r world" where
  "upd_sock sid f w =
     (case sockets w sid of None \<Rightarrow> w | Some s \<Rightarrow> w\<lparr>sockets := (sockets w)(sid \<mapsto> f s)\<rparr>)"

text \<open>JavaScript truthiness of a stored decision: \<^verbatim>\<open>null\<close> and \<^verbatim>\<open>""\<close> are falsy.\<close>

definition truthy :: "string option \<Rightarrow> bool" where
  "truthy d = (d \<noteq> None \<and> d \<noteq> Some [])"

text \<open>Acknowledgments: \<^verbatim>\<open>{ok:true}\<close> or \<^verbatim>\<open>{error: reason}\<close>.\<close>

datatype reason =
    invalid | r_spectator | not_started | r_game_over | not_your_turn
  | no_piece | illegal | r_empty | not_yours | type_error

datatype ack = ack_ok | ack_error reason

text \<open>
  The payload of \<^verbatim>\<open>place_piece\<close>, with the two action tags of the interface:
  \<^verbatim>\<open>{action:"place_from_hand", size, to:{r,c}}\<close> and
  \<^verbatim>\<open>{action:"move_on_board", from:{r,c}, to:{r,c}}\<close>. Coordinates are array indices,
  possibly outside the board. The type covers the requests of the interface only:
  a payload with another action tag, or with a size name that is not in the size
  table, has no representation here, although the handlers do not reject such a
  payload as malformed (\<^verbatim>\<open>server.js\<close> takes the move branch for every tag but
  \<^verbatim>\<open>place_from_hand\<close>, the variants 000 and 001 skip both branches for an unknown
  tag and go on to the winner check; a size name outside the table passes the hand
  check and is placed on an empty cell). Every statement below about
  \<^verbatim>\<open>place_piece\<close> is a statement about the requests of this type.
\<close>

datatype payload =
    place_from_hand size_name "nat \<times> nat"
  | move_on_board "nat \<times> nat" "nat \<times> nat"

text \<open>\<^verbatim>\<open>board[r][c].push(p)\<close> and \<^verbatim>\<open>board[r][c].pop()\<close> on an existing cell.\<close>

definition set_cell :: "board \<Rightarrow> nat \<Rightarrow> nat \<Rightarrow> stack \<Rightarrow> board" where
  "set_cell b r c st = b[r := (b ! r)[c := st]]"

definition push_cell :: "board \<Rightarrow> nat \<Rightarrow> nat \<Rightarrow> piece \<Rightarrow> board" where
  "push_cell b r c p = set_cell b r c ((b ! r ! c) @ [p])"

definition pop_cell :: "board \<Rightarrow> nat \<Rightarrow> nat \<Rightarrow> board" where
  "pop_cell b r c = set_cell b r c (butlast (b ! r ! c))"

text \<open>
  \<^verbatim>\<open>rooms[socket.data.roomID]\<close>: the room a connection is bound to, with its
  identifier; \<open>None\<close> when the connection has no room identifier or the registry has
  no such room.
\<close>

definition room_of :: "'r world \<Rightarrow> sock \<Rightarrow> (room_id \<times> 'r) option" where
  "room_of w sk =
     (case sock_roomID sk of
        None \<Rightarrow> None
      | Some rid \<Rightarrow> (case rooms w rid of None \<Rightarrow> None | Some r \<Rightarrow> Some (rid, r)))"


section \<open>The handlers of \<^verbatim>\<open>server.js\<close>\<close>

definition createNewGameState :: room_srv where
  "createNewGameState =
     \<lparr>board = [[[],[],[]],[[],[],[]],[[],[],[]]], players = (\<lambda>_. None), currentTurn = None,
      winner = None, started = False, watchQueue = [], postDecisions = (\<lambda>_. None),
      players_extra = (\<lambda>_. None)\<rparr>"

text \<open>
  The loop of \<^verbatim>\<open>promoteFromQueue\<close>: \<^verbatim>\<open>shift\<close> the front identifier, \<^verbatim>\<open>continue\<close>
  when \<^verbatim>\<open>io.sockets.sockets.get(id)\<close> is \<^verbatim>\<open>undefined\<close>, stop at the first
  connected one. The result is that identifier with its socket (if any) and the queue
  that is left.
\<close>

fun promote_scan ::
  "(conn_id \<rightharpoonup> sock) \<Rightarrow> conn_id list \<Rightarrow> (conn_id \<times> sock) option \<times> conn_id list" where
  "promote_scan S [] = (None, [])"
| "promote_scan S (i # q) = (case S i of None \<Rightarrow> promote_scan S q | Some s \<Rightarrow> (Some (i, s), q))"

definition promoteFromQueue :: "room_id \<Rightarrow> slot \<Rightarrow> room_srv world \<Rightarrow> room_srv world \<times> bool" where
  "promoteFromQueue rid slot w =
     (case rooms w rid of
        None \<Rightarrow> (w, False)
      | Some r \<Rightarrow>
          (case promote_scan (sockets w) (watchQueue r) of
             (None, q) \<Rightarrow> (upd_room rid (\<lambda>r. r\<lparr>watchQueue := q\<rparr>) w, False)
           | (Some (i, s), q) \<Rightarrow>
               (emit (ToSocket i) (assign (PlayerSlot slot))
                  (upd_sock i (\<lambda>s. s\<lparr>playerSlot := PlayerSlot slot\<rparr>)
                     (upd_room rid
                        (\<lambda>r. r\<lparr>watchQueue := q,
                               players := (players r)(slot \<mapsto>
                                 \<lparr>player_id = i,
                                  player_name = sock_name s,
                                  player_color = None,
                                  pieces = full_hand\<rparr>)\<rparr>) w)),
                True)))"

definition reset_pieces :: "player option \<Rightarrow> player option" where
  "reset_pieces p = map_option (\<lambda>pl. pl\<lparr>pieces := full_hand\<rparr>) p"

definition resetBoard :: "room_srv \<Rightarrow> room_srv" where
  "resetBoard r =
     r\<lparr>board := [[[],[],[]],[[],[],[]],[[],[],[]]],
       players := (\<lambda>s. reset_pieces (players r s)),
       currentTurn := Some A,
       winner := None,
       started := (players r A \<noteq> None \<and> players r B \<noteq> None)\<rparr>"

text \<open>
  \<^verbatim>\<open>r.players[k]\<close> and \<^verbatim>\<open>r.players[k] = v\<close> for a key \<open>k\<close> that is the
  \<^verbatim>\<open>playerSlot\<close> of a socket.
\<close>

definition player_at :: "room_srv \<Rightarrow> role \<Rightarrow> player option" where
  "player_at r k = (case k of PlayerSlot s \<Rightarrow> players r s | _ \<Rightarrow> players_extra r k)"

definition set_player_at :: "role \<Rightarrow> player option \<Rightarrow> room_srv \<Rightarrow> room_srv" where
  "set_player_at k v r =
     (case k of
        PlayerSlot s \<Rightarrow> r\<lparr>players := (players r)(s := v)\<rparr>
      | _ \<Rightarrow> r\<lparr>players_extra := (players_extra r)(k := v)\<rparr>)"

text \<open>
  \<^verbatim>\<open>forceEndGame(roomID, leaverSlot)\<close>. \<^verbatim>\<open>otherSlot\<close> is
  \<^verbatim>\<open>leaverSlot === "A" ? "B" : "A"\<close>, so it is \<open>A\<close> for every \<^verbatim>\<open>leaverSlot\<close>
  but \<^verbatim>\<open>"A"\<close>. The relocation \<^verbatim>\<open>r.players[leaverSlot] = other\<close> moves the player
  object; the \<^verbatim>\<open>playerSlot\<close> of that player's socket is not written.
\<close>

definition forceEndGame :: "room_id \<Rightarrow> role \<Rightarrow> room_srv world \<Rightarrow> room_srv world" where
  "forceEndGame roomID leaverSlot w =
     (case rooms w roomID of
        None \<Rightarrow> w
      | Some r \<Rightarrow>
          (let otherSlot = (if leaverSlot = PlayerSlot A then B else A);
               leaver = player_at r leaverSlot;
               other = players r otherSlot;
               r1 = (case leaver of
                       None \<Rightarrow> r
                     | Some l \<Rightarrow> set_player_at leaverSlot None
                                   (r\<lparr>watchQueue := watchQueue r @ [player_id l]\<rparr>));
               r2 = (case other of
                       None \<Rightarrow> r1
                     | Some ot \<Rightarrow> set_player_at (PlayerSlot otherSlot) None
                                    (set_player_at leaverSlot (Some (ot\<lparr>pieces := full_hand\<rparr>)) r1));
               w1 = fst (promoteFromQueue roomID otherSlot (w\<lparr>rooms := (rooms w)(roomID \<mapsto> r2)\<rparr>));
               w2 = upd_room roomID resetBoard w1
           in emit (ToRoom roomID) start_game w2))"

text \<open>
  The \<^verbatim>\<open>force_quit\<close> handler:
  \<^verbatim>\<open>forceEndGame(socket.data.roomID, socket.data.playerSlot)\<close>. For a socket without
  room identifier \<^verbatim>\<open>rooms[undefined]\<close> is \<^verbatim>\<open>undefined\<close> and the function returns.
\<close>

definition force_quit :: "conn_id \<Rightarrow> room_srv world \<Rightarrow> room_srv world" where
  "force_quit sid w =
     (case sockets w sid of
        None \<Rightarrow> w
      | Some sk \<Rightarrow>
          (case sock_roomID sk of
             None \<Rightarrow> w
           | Some roomID \<Rightarrow> forceEndGame roomID (playerSlot sk) w))"

text \<open>The inner function \<^verbatim>\<open>handle(slot)\<close> of \<^verbatim>\<open>evaluatePostGame\<close>, with the
  \<^verbatim>\<open>survivors\<close> array it appends to.\<close>

definition handle :: "slot \<Rightarrow> room_srv \<times> player list \<Rightarrow> room_srv \<times> player list" where
  "handle slot rs =
     (let r = fst rs; survivors = snd rs;
          p = players r slot; act = postDecisions r slot
      in case p of
           None \<Rightarrow> (r\<lparr>players := (players r)(slot := None)\<rparr>, survivors)
         | Some pl \<Rightarrow>
             if act = Some ''continue''
             then (r\<lparr>players := (players r)(slot := None)\<rparr>, survivors @ [pl])
             else (r\<lparr>watchQueue := watchQueue r @ [player_id pl],
                     players := (players r)(slot := None)\<rparr>, survivors))"

text \<open>One round of \<^verbatim>\<open>for(const s of ["A","B"])\<close>: seat a survivor, else promote.\<close>

definition seat :: "room_id \<Rightarrow> slot \<Rightarrow> room_srv world \<times> player list \<Rightarrow> room_srv world \<times> player list" where
  "seat rid s ws =
     (let w = fst ws; survivors = snd ws
      in if survivors \<noteq> []
         then (upd_room rid (\<lambda>r. r\<lparr>players := (players r)(s \<mapsto> hd survivors)\<rparr>) w, tl survivors)
         else (fst (promoteFromQueue rid s w), survivors))"

definition evaluatePostGame :: "room_id \<Rightarrow> room_srv world \<Rightarrow> room_srv world" where
  "evaluatePostGame roomID w =
     (case rooms w roomID of
        None \<Rightarrow> w
      | Some r \<Rightarrow>
          if \<not> truthy (postDecisions r A) \<or> \<not> truthy (postDecisions r B) then w
          else
            (let rs = handle B (handle A (r, []));
                 ws = seat roomID B (seat roomID A (w\<lparr>rooms := (rooms w)(roomID \<mapsto> fst rs)\<rparr>, snd rs));
                 w1 = upd_room roomID (\<lambda>r. r\<lparr>postDecisions := (\<lambda>_. None)\<rparr>) (fst ws);
                 w2 = upd_room roomID resetBoard w1
             in emit (ToRoom roomID) start_game w2))"

text \<open>
  The \<^verbatim>\<open>join\<close> handler; \<open>sid\<close> is the connection the event arrived on. A handler
  only runs for a connected socket.
\<close>

definition join :: "conn_id \<Rightarrow> room_id \<Rightarrow> string option \<Rightarrow> room_srv world \<Rightarrow> room_srv world \<times> ack option \<times> role" where
  "join sid roomID name w =
     (case sockets w sid of
        None \<Rightarrow> (w, None, no_slot)
      | Some _ \<Rightarrow>
          (let w1 = upd_sock sid (\<lambda>s. s\<lparr>sock_roomID := Some roomID, sock_name := name\<rparr>)
                      (socket_join sid roomID w);
               r = (case rooms w1 roomID of None \<Rightarrow> createNewGameState | Some r \<Rightarrow> r);
               slot = (if players r A = None then PlayerSlot A
                       else if players r B = None then PlayerSlot B else spectator);
               r1 = (case slot of
                       PlayerSlot sl \<Rightarrow>
                         r\<lparr>players := (players r)(sl \<mapsto>
                              \<lparr>player_id = sid, player_name = name, player_color = None,
                               pieces = full_hand\<rparr>)\<rparr>
                     | _ \<Rightarrow> r\<lparr>watchQueue := watchQueue r @ [sid]\<rparr>);
               w2 = upd_sock sid (\<lambda>s. s\<lparr>playerSlot := slot\<rparr>) w1;
               w3 = (if players r1 A \<noteq> None \<and> players r1 B \<noteq> None
                     then emit (ToRoom roomID) start_game
                            (w2\<lparr>rooms := (rooms w2)(roomID \<mapsto> r1\<lparr>started := True, currentTurn := Some A\<rparr>)\<rparr>)
                     else emit (ToRoom roomID) update_state
                            (w2\<lparr>rooms := (rooms w2)(roomID \<mapsto> r1)\<rparr>))
           in (w3, Some ack_ok, slot)))"

text \<open>
  The body of the \<^verbatim>\<open>try\<close> block of \<^verbatim>\<open>place_piece\<close> up to the call of
  \<^verbatim>\<open>checkWinner\<close>: the room as the statements have mutated it so far, and whether
  the block is still running (\<open>True\<close>) or has thrown (\<open>False\<close>). Reading a field of
  \<^verbatim>\<open>null\<close>/\<^verbatim>\<open>undefined\<close> throws a TypeError like the explicit \<^verbatim>\<open>throw ""\<close>.
\<close>

definition place_move :: "slot \<Rightarrow> payload \<Rightarrow> room_srv \<Rightarrow> room_srv \<times> bool" where
  "place_move s p r =
     (case p of
        place_from_hand sz to \<Rightarrow>
          (case players r s of
             None \<Rightarrow> (r, False)
           | Some pl \<Rightarrow>
               if pieces pl sz \<le> 0 then (r, False)
               else (case canPlaceAt (board r) (fst to) (snd to) sz of
                       None \<Rightarrow> (r, False)
                     | Some False \<Rightarrow> (r, False)
                     | Some True \<Rightarrow>
                         (r\<lparr>board := push_cell (board r) (fst to) (snd to)
                                        \<lparr>owner = s, piece_size = sz, color = None\<rparr>,
                            players := (players r)(s \<mapsto> pl\<lparr>pieces := (pieces pl)(sz := pieces pl sz - 1)\<rparr>)\<rparr>,
                          True)))
      | move_on_board from to \<Rightarrow>
          (case cell_at (board r) (fst from) (snd from) of
             None \<Rightarrow> (r, False)
           | Some src \<Rightarrow>
               (let top = at_last src;
                    r1 = r\<lparr>board := pop_cell (board r) (fst from) (snd from)\<rparr>
                in case top of
                     None \<Rightarrow> (r1, False)
                   | Some t \<Rightarrow>
                       (case canPlaceAt (board r1) (fst to) (snd to) (piece_size t) of
                          None \<Rightarrow> (r1, False)
                        | Some False \<Rightarrow> (r1, False)
                        | Some True \<Rightarrow>
                            (r1\<lparr>board := push_cell (board r1) (fst to) (snd to) t\<rparr>, True)))))"

definition place_piece :: "conn_id \<Rightarrow> payload \<Rightarrow> room_srv world \<Rightarrow> room_srv world \<times> ack option" where
  "place_piece sid p w =
     (case sockets w sid of
        None \<Rightarrow> (w, None)
      | Some sk \<Rightarrow>
          (case room_of w sk of
             None \<Rightarrow> (w, None)
           | Some (rid, r) \<Rightarrow>
               (case playerSlot sk of
                  PlayerSlot s \<Rightarrow>
                    if \<not> started r \<or> winner r \<noteq> None \<or> currentTurn r \<noteq> Some s then (w, None)
                    else
                      (let mv = place_move s p r;
                           w1 = w\<lparr>rooms := (rooms w)(rid \<mapsto> fst mv)\<rparr>
                       in if \<not> snd mv then (w1, Some (ack_error invalid))
                          else
                            (case checkWinner (board (fst mv)) of
                               None \<Rightarrow> (w1, Some (ack_error invalid))
                             | Some (Some wn) \<Rightarrow>
                                 (emit (ToRoom rid) (game_over wn)
                                    (upd_room rid (\<lambda>r. r\<lparr>winner := Some wn, started := False,
                                                          postDecisions := (\<lambda>_. None)\<rparr>) w1),
                                  Some ack_ok)
                             | Some None \<Rightarrow>
                                 (emit (ToRoom rid) update_state
                                    (upd_room rid (\<lambda>r. r\<lparr>currentTurn := Some (if s = A then B else A)\<rparr>) w1),
                                  Some ack_ok)))
                | _ \<Rightarrow> (w, None))))"

text \<open>
  The \<^verbatim>\<open>postgame_decision\<close> handler. A stored decision only matters under the keys
  \<^verbatim>\<open>A\<close> and \<^verbatim>\<open>B\<close>; for any other \<^verbatim>\<open>playerSlot\<close> the assignment adds a property
  that nothing reads. For a socket without room the first statement raises and the
  state is as before.
\<close>

definition postgame_decision :: "conn_id \<Rightarrow> string option \<Rightarrow> room_srv world \<Rightarrow> room_srv world \<times> ack option" where
  "postgame_decision sid action w =
     (case sockets w sid of
        None \<Rightarrow> (w, None)
      | Some sk \<Rightarrow>
          (case room_of w sk of
             None \<Rightarrow> (w, None)
           | Some (rid, r) \<Rightarrow>
               (let w1 = (case playerSlot sk of
                            PlayerSlot s \<Rightarrow>
                              upd_room rid (\<lambda>r. r\<lparr>postDecisions := (postDecisions r)(s := action)\<rparr>) w
                          | _ \<Rightarrow> w);
                    w2 = emit (ToRoom rid) (postgame_update (playerSlot sk) action) w1
                in (evaluatePostGame rid w2, Some ack_ok))))"

section \<open>The handlers of variant 000\<close>

definition createNewGameState_000 :: room where
  "createNewGameState_000 =
     \<lparr>board = [[[],[],[]],[[],[],[]],[[],[],[]]], players = (\<lambda>_. None), currentTurn = None,
      winner = None, started = False, watchQueue = [], postDecisions = (\<lambda>_. None)\<rparr>"

text \<open>
  \<^verbatim>\<open>(data && data.name) ? String(data.name).slice(0,50) : "Guest"\<close>; \<open>None\<close> is an
  absent name.
\<close>

definition join_name :: "string option \<Rightarrow> string" where
  "join_name n = (case n of None \<Rightarrow> ''Guest'' | Some s \<Rightarrow> if s = [] then ''Guest'' else take 50 s)"

text \<open>\<^verbatim>\<open>removeFromWatchQueue\<close>: \<^verbatim>\<open>indexOf\<close> and \<^verbatim>\<open>splice\<close> drop the first occurrence.\<close>

definition removeFromWatchQueue :: "conn_id \<Rightarrow> room \<Rightarrow> room" where
  "removeFromWatchQueue socketId r = r\<lparr>watchQueue := remove1 socketId (watchQueue r)\<rparr>"

definition resetPostDecisions :: "room \<Rightarrow> room" where
  "resetPostDecisions r = r\<lparr>postDecisions := (\<lambda>_. None)\<rparr>"

text \<open>
  The \<^verbatim>\<open>join\<close> handler of variant 000. \<open>roomID\<close> is the identifier the handler
  settles on: \<^verbatim>\<open>data.room\<close>, or an unused identifier drawn at random when the client
  sent none.
\<close>

definition join_000 :: "conn_id \<Rightarrow> room_id \<Rightarrow> string option \<Rightarrow> room world \<Rightarrow> room world \<times> ack option \<times> role" where
  "join_000 sid roomID nm w =
     (case sockets w sid of
        None \<Rightarrow> (w, None, no_slot)
      | Some _ \<Rightarrow>
          (let name = join_name nm;
               w1 = upd_sock sid (\<lambda>s. s\<lparr>sock_roomID := Some roomID, sock_name := Some name\<rparr>)
                      (socket_join sid roomID w);
               roomState = (case rooms w1 roomID of None \<Rightarrow> createNewGameState_000 | Some r \<Rightarrow> r);
               assigned = (if players roomState A = None then PlayerSlot A
                           else if players roomState B = None then PlayerSlot B else spectator);
               r1 = (if players roomState A = None
                     then roomState\<lparr>players := (players roomState)(A \<mapsto>
                            \<lparr>player_id = sid, player_name = Some name, player_color = Some ''blue'',
                             pieces = full_hand\<rparr>)\<rparr>
                     else if players roomState B = None
                     then roomState\<lparr>players := (players roomState)(B \<mapsto>
                            \<lparr>player_id = sid, player_name = Some name, player_color = Some ''orange'',
                             pieces = full_hand\<rparr>)\<rparr>
                     else (let r0 = removeFromWatchQueue sid roomState
                           in r0\<lparr>watchQueue := watchQueue r0 @ [sid]\<rparr>));
               w2 = upd_sock sid (\<lambda>s. s\<lparr>playerSlot := assigned\<rparr>) w1;
               w3 = (if players r1 A \<noteq> None \<and> players r1 B \<noteq> None
                     then (let r2 = (if \<not> started r1 \<and> winner r1 = None
                                     then r1\<lparr>currentTurn := Some A, started := True\<rparr> else r1)
                           in emit (ToRoom roomID) start_game
                                (w2\<lparr>rooms := (rooms w2)(roomID \<mapsto> resetPostDecisions r2)\<rparr>))
                     else emit (ToRoom roomID) update_state
                            (w2\<lparr>rooms := (rooms w2)(roomID \<mapsto> r1)\<rparr>));
               w4 = emit (ToSocket sid) chat_init w3
           in (w4, Some ack_ok, assigned)))"

text \<open>
  The statements of the \<^verbatim>\<open>try\<close> block of \<^verbatim>\<open>place_piece\<close> before the call of
  \<^verbatim>\<open>checkWinner\<close>, the same text in the variants 000 and 001: the state as mutated
  so far, and the message of the exception if one was thrown (\<open>type_error\<close> for a
  TypeError of the runtime). \<open>canPlace\<close> is the \<^verbatim>\<open>canPlaceAt\<close> of the file the
  handler belongs to.
\<close>

definition try_move ::
  "(board \<Rightarrow> nat \<Rightarrow> nat \<Rightarrow> size_name \<Rightarrow> bool option) \<Rightarrow> slot \<Rightarrow> payload \<Rightarrow> 'a game_scheme
     \<Rightarrow> 'a game_scheme \<times> reason option" where
  "try_move canPlace slot p roomState =
     (case p of
        place_from_hand sz to \<Rightarrow>
          (case players roomState slot of
             None \<Rightarrow> (roomState, Some type_error)
           | Some player \<Rightarrow>
               if pieces player sz \<le> 0 then (roomState, Some no_piece)
               else (case canPlace (board roomState) (fst to) (snd to) sz of
                       None \<Rightarrow> (roomState, Some type_error)
                     | Some False \<Rightarrow> (roomState, Some illegal)
                     | Some True \<Rightarrow>
                         (roomState\<lparr>board := push_cell (board roomState) (fst to) (snd to)
                                        \<lparr>owner = slot, piece_size = sz, color = player_color player\<rparr>,
                            players := (players roomState)(slot \<mapsto>
                                          player\<lparr>pieces := (pieces player)(sz := pieces player sz - 1)\<rparr>)\<rparr>,
                          None)))
      | move_on_board from to \<Rightarrow>
          (case cell_at (board roomState) (fst from) (snd from) of
             None \<Rightarrow> (roomState, Some type_error)
           | Some srcStack \<Rightarrow>
               if length srcStack = 0 then (roomState, Some r_empty)
               else (let top = last srcStack
                     in if owner top \<noteq> slot then (roomState, Some not_yours)
                        else (case canPlace (board roomState) (fst to) (snd to) (piece_size top) of
                                None \<Rightarrow> (roomState, Some type_error)
                              | Some False \<Rightarrow> (roomState, Some illegal)
                              | Some True \<Rightarrow>
                                  (roomState\<lparr>board := push_cell (pop_cell (board roomState) (fst from) (snd from))
                                                          (fst to) (snd to) top\<rparr>,
                                   None)))))"

definition place_piece_000 :: "conn_id \<Rightarrow> payload \<Rightarrow> room world \<Rightarrow> room world \<times> ack option" where
  "place_piece_000 sid p w =
     (case sockets w sid of
        None \<Rightarrow> (w, None)
      | Some sk \<Rightarrow>
          (case room_of w sk of
             None \<Rightarrow> (w, None)
           | Some (roomID, roomState) \<Rightarrow>
               (case playerSlot sk of
                  PlayerSlot slot \<Rightarrow>
                    if \<not> started roomState then (w, Some (ack_error not_started))
                    else if winner roomState \<noteq> None then (w, Some (ack_error r_game_over))
                    else if currentTurn roomState \<noteq> Some slot then (w, Some (ack_error not_your_turn))
                    else
                      (let mv = try_move canPlaceAt_000 slot p roomState;
                           w1 = w\<lparr>rooms := (rooms w)(roomID \<mapsto> fst mv)\<rparr>
                       in case snd mv of
                            Some e \<Rightarrow> (w1, Some (ack_error e))
                          | None \<Rightarrow>
                              (case checkWinner_000 (board (fst mv)) of
                                 None \<Rightarrow> (w1, Some (ack_error type_error))
                               | Some (Some wn) \<Rightarrow>
                                   (emit (ToRoom roomID) (game_over wn)
                                      (upd_room roomID (\<lambda>r. r\<lparr>winner := Some wn, started := False,
                                                               postDecisions := (\<lambda>_. None)\<rparr>) w1),
                                    Some ack_ok)
                               | Some None \<Rightarrow>
                                   (emit (ToRoom roomID) update_state
                                      (upd_room roomID
                                         (\<lambda>r. r\<lparr>currentTurn := Some (if slot = A then B else A)\<rparr>) w1),
                                    Some ack_ok)))
                | _ \<Rightarrow> (w, Some (ack_error r_spectator)))))"

section \<open>The handlers of variant 001\<close>

definition createNewGameState_001 :: room_001 where
  "createNewGameState_001 =
     \<lparr>board = [[[],[],[]],[[],[],[]],[[],[],[]]], players = (\<lambda>_. None), currentTurn = None,
      winner = None, started = False, spectators = [], pendingDecisions = (\<lambda>_. None)\<rparr>"

definition slot_color :: "slot \<Rightarrow> string" where
  "slot_color s = (if s = A then ''blue'' else ''orange'')"

text \<open>
  \<^verbatim>\<open>resolveGameDecisions\<close>, step 1, for one slot (the source writes the block once
  for \<open>A\<close> and once for \<open>B\<close>): \<open>choice\<close> is \<^verbatim>\<open>choiceA\<close>/\<^verbatim>\<open>choiceB\<close> and \<open>p\<close> is
  \<^verbatim>\<open>pA\<close>/\<^verbatim>\<open>pB\<close>, the occupant read when the function was entered.
\<close>

definition dispatch_001 :: "room_id \<Rightarrow> slot \<Rightarrow> string \<Rightarrow> player option \<Rightarrow> room_001 world \<Rightarrow> room_001 world" where
  "dispatch_001 roomID s choice p w =
     (if choice = ''leave'' then
        (let w1 = (case p of
                     None \<Rightarrow> w
                   | Some pl \<Rightarrow>
                       (let w' = emit (ToSocket (player_id pl)) redirect_home w
                        in case sockets w' (player_id pl) of
                             None \<Rightarrow> w'
                           | Some _ \<Rightarrow>
                               upd_sock (player_id pl) (\<lambda>sk. sk\<lparr>sock_roomID := None, playerSlot := no_slot\<rparr>)
                                 (socket_leave (player_id pl) roomID w')))
         in upd_room roomID (\<lambda>r. r\<lparr>players := (players r)(s := None)\<rparr>) w1)
      else if choice = ''spectate'' then
        (let w1 = (case p of
                     None \<Rightarrow> w
                   | Some pl \<Rightarrow>
                       emit (ToSocket (player_id pl)) (assign spectator)
                         (upd_sock (player_id pl) (\<lambda>sk. sk\<lparr>playerSlot := spectator\<rparr>)
                            (upd_room roomID
                               (\<lambda>r. r\<lparr>spectators := spectators r @
                                        [\<lparr>spec_id = player_id pl, spec_name = player_name pl\<rparr>]\<rparr>) w)))
         in upd_room roomID (\<lambda>r. r\<lparr>players := (players r)(s := None)\<rparr>) w1)
      else w)"

text \<open>Step 2 for one slot: the body of \<^verbatim>\<open>['A','B'].forEach(slot => ...)\<close>.\<close>

definition fill_001 :: "room_id \<Rightarrow> slot \<Rightarrow> room_001 world \<Rightarrow> room_001 world" where
  "fill_001 roomID s w =
     (case rooms w roomID of
        None \<Rightarrow> w
      | Some room \<Rightarrow>
          if players room s = None \<and> length (spectators room) > 0 then
            (let nextSpec = hd (spectators room);
                 w1 = upd_room roomID (\<lambda>r. r\<lparr>spectators := tl (spectators r)\<rparr>) w
             in case sockets w1 (spec_id nextSpec) of
                  None \<Rightarrow> w1
                | Some _ \<Rightarrow>
                    emit (ToRoom roomID) chat_message
                      (emit (ToSocket (spec_id nextSpec)) (assign (PlayerSlot s))
                         (upd_sock (spec_id nextSpec) (\<lambda>sk. sk\<lparr>playerSlot := PlayerSlot s\<rparr>)
                            (upd_room roomID
                               (\<lambda>r. r\<lparr>players := (players r)(s \<mapsto>
                                        \<lparr>player_id = spec_id nextSpec, player_name = spec_name nextSpec,
                                         player_color = Some (slot_color s), pieces = full_hand\<rparr>)\<rparr>) w1))))
          else w)"

text \<open>Step 3: reset of the game state and the decision whether to start.\<close>

definition restart_001 :: "room_id \<Rightarrow> room_001 world \<Rightarrow> room_001 world" where
  "restart_001 roomID w =
     (let w1 = upd_room roomID
                 (\<lambda>r. r\<lparr>board := [[[],[],[]],[[],[],[]],[[],[],[]]], winner := None,
                        pendingDecisions := (\<lambda>_. None),
                        players := (\<lambda>s. reset_pieces (players r s))\<rparr>) w
      in case rooms w1 roomID of
           None \<Rightarrow> w1
         | Some room \<Rightarrow>
             if players room A \<noteq> None \<and> players room B \<noteq> None
             then emit (ToRoom roomID) chat_message
                    (emit (ToRoom roomID) start_game
                       (upd_room roomID (\<lambda>r. r\<lparr>currentTurn := Some A, started := True\<rparr>) w1))
             else emit (ToRoom roomID) chat_message
                    (emit (ToRoom roomID) update_state
                       (upd_room roomID (\<lambda>r. r\<lparr>started := False, currentTurn := None\<rparr>) w1)))"

text \<open>
  \<^verbatim>\<open>const choiceA = pA ? (decisions.A || 'leave') : 'leave'\<close>
\<close>

definition choice_001 :: "player option \<Rightarrow> string option \<Rightarrow> string" where
  "choice_001 p d =
     (case p of
        None \<Rightarrow> ''leave''
      | Some _ \<Rightarrow> (case d of None \<Rightarrow> ''leave'' | Some c \<Rightarrow> if c = [] then ''leave'' else c))"

definition resolveGameDecisions :: "room_id \<Rightarrow> room_001 world \<Rightarrow> room_001 world" where
  "resolveGameDecisions roomID w =
     (case rooms w roomID of
        None \<Rightarrow> w
      | Some room \<Rightarrow>
          (let decisions = pendingDecisions room;
               pA = players room A;
               pB = players room B;
               choiceA = choice_001 pA (decisions A);
               choiceB = choice_001 pB (decisions B);
               w1 = dispatch_001 roomID A choiceA pA w;
               w2 = dispatch_001 roomID B choiceB pB w1;
               w3 = fill_001 roomID B (fill_001 roomID A w2)
           in restart_001 roomID w3))"

definition join_001 :: "conn_id \<Rightarrow> room_id \<Rightarrow> string option \<Rightarrow> room_001 world \<Rightarrow> room_001 world \<times> ack option \<times> role" where
  "join_001 sid roomID nm w =
     (case sockets w sid of
        None \<Rightarrow> (w, None, no_slot)
      | Some _ \<Rightarrow>
          (let name = join_name nm;
               w1 = upd_sock sid (\<lambda>s. s\<lparr>sock_roomID := Some roomID\<rparr>) (socket_join sid roomID w);
               roomState = (case rooms w1 roomID of None \<Rightarrow> createNewGameState_001 | Some r \<Rightarrow> r);
               assigned = (if players roomState A = None then PlayerSlot A
                           else if players roomState B = None then PlayerSlot B else spectator);
               r1 = (if players roomState A = None
                     then roomState\<lparr>players := (players roomState)(A \<mapsto>
                            \<lparr>player_id = sid, player_name = Some name, player_color = Some ''blue'',
                             pieces = full_hand\<rparr>)\<rparr>
                     else if players roomState B = None
                     then roomState\<lparr>players := (players roomState)(B \<mapsto>
                            \<lparr>player_id = sid, player_name = Some name, player_color = Some ''orange'',
                             pieces = full_hand\<rparr>)\<rparr>
                     else roomState\<lparr>spectators := spectators roomState @
                            [\<lparr>spec_id = sid, spec_name = Some name\<rparr>]\<rparr>);
               w2 = emit (ToSocket sid) (assign assigned)
                      (upd_sock sid (\<lambda>s. s\<lparr>playerSlot := assigned\<rparr>) w1);
               w3 = (if players r1 A \<noteq> None \<and> players r1 B \<noteq> None
                     then (if \<not> started r1 \<and> winner r1 = None
                           then emit (ToRoom roomID) start_game
                                  (w2\<lparr>rooms := (rooms w2)(roomID \<mapsto> r1\<lparr>currentTurn := Some A, started := True\<rparr>)\<rparr>)
                           else emit (ToRoom roomID) update_state
                                  (w2\<lparr>rooms := (rooms w2)(roomID \<mapsto> r1)\<rparr>))
                     else emit (ToRoom roomID) update_state
                            (w2\<lparr>rooms := (rooms w2)(roomID \<mapsto> r1)\<rparr>));
               w4 = emit (ToSocket sid) chat_init w3
           in (w4, Some ack_ok, assigned)))"

definition place_piece_001 :: "conn_id \<Rightarrow> payload \<Rightarrow> room_001 world \<Rightarrow> room_001 world \<times> ack option" where
  "place_piece_001 sid p w =
     (case sockets w sid of
        None \<Rightarrow> (w, None)
      | Some sk \<Rightarrow>
          (case room_of w sk of
             None \<Rightarrow> (w, None)
           | Some (roomID, roomState) \<Rightarrow>
               (case playerSlot sk of
                  PlayerSlot slot \<Rightarrow>
                    if \<not> started roomState then (w, Some (ack_error not_started))
                    else if winner roomState \<noteq> None then (w, Some (ack_error r_game_over))
                    else if currentTurn roomState \<noteq> Some slot then (w, Some (ack_error not_your_turn))
                    else
                      (let mv = try_move canPlaceAt_001 slot p roomState;
                           w1 = w\<lparr>rooms := (rooms w)(roomID \<mapsto> fst mv)\<rparr>
                       in case snd mv of
                            Some e \<Rightarrow> (w1, Some (ack_error e))
                          | None \<Rightarrow>
                              (case checkWinner_001 (board (fst mv)) of
                                 None \<Rightarrow> (w1, Some (ack_error type_error))
                               | Some (Some wn) \<Rightarrow>
                                   (emit (ToRoom roomID) (game_over wn)
                                      (upd_room roomID (\<lambda>r. r\<lparr>winner := Some wn, started := False,
                                                               pendingDecisions := (\<lambda>_. None)\<rparr>) w1),
                                    Some ack_ok)
                               | Some None \<Rightarrow>
                                   (emit (ToRoom roomID) update_state
                                      (upd_room roomID
                                         (\<lambda>r. r\<lparr>currentTurn := Some (if slot = A then B else A)\<rparr>) w1),
                                    Some ack_ok)))
                | _ \<Rightarrow> (w, Some (ack_error r_spectator)))))"

text \<open>The \<^verbatim>\<open>post_game_decision\<close> handler; \<open>decision\<close> is \<^verbatim>\<open>data.decision\<close>.\<close>

definition post_game_decision :: "conn_id \<Rightarrow> string option \<Rightarrow> room_001 world \<Rightarrow> room_001 world" where
  "post_game_decision sid decision w =
     (case sockets w sid of
        None \<Rightarrow> w
      | Some sk \<Rightarrow>
          (case room_of w sk of
             None \<Rightarrow> w
           | Some (roomID, roomState) \<Rightarrow>
               if winner roomState = None then w
               else (case playerSlot sk of
                       PlayerSlot slot \<Rightarrow>
                         (let r1 = roomState\<lparr>pendingDecisions := (pendingDecisions roomState)(slot := decision)\<rparr>;
                              w1 = emit (ToRoomExcept roomID sid) (opponent_decided slot)
                                     (w\<lparr>rooms := (rooms w)(roomID \<mapsto> r1)\<rparr>);
                              dA = pendingDecisions r1 A;
                              dB = pendingDecisions r1 B;
                              isAPresent = (players r1 A \<noteq> None);
                              isBPresent = (players r1 B \<noteq> None)
                          in if isAPresent \<and> \<not> truthy dA then w1
                             else if isBPresent \<and> \<not> truthy dB then w1
                             else resolveGameDecisions roomID w1)
                     | _ \<Rightarrow> w)))"

text \<open>
  The \<^verbatim>\<open>disconnect\<close> handler. When the transport raises \<^verbatim>\<open>disconnect\<close> it has
  already taken the socket out of \<^verbatim>\<open>io.sockets.sockets\<close> and out of every room of
  the adapter; the handler still reads the \<^verbatim>\<open>socket.data\<close> of the closed socket.
\<close>

definition disconnect_001 :: "conn_id \<Rightarrow> room_001 world \<Rightarrow> room_001 world" where
  "disconnect_001 sid w =
     (case sockets w sid of
        None \<Rightarrow> w
      | Some sk \<Rightarrow>
          (let w0 = w\<lparr>sockets := (sockets w)(sid := None),
                      adapter_rooms := (\<lambda>rid. adapter_rooms w rid - {sid})\<rparr>
           in case room_of w0 sk of
                None \<Rightarrow> w0
              | Some (roomID, roomState) \<Rightarrow>
                  (let w1 = (case playerSlot sk of
                               PlayerSlot slot \<Rightarrow>
                                 if winner roomState \<noteq> None
                                 then resolveGameDecisions roomID
                                        (upd_room roomID
                                           (\<lambda>r. r\<lparr>pendingDecisions := (pendingDecisions r)(slot \<mapsto> ''leave'')\<rparr>) w0)
                                 else emit (ToRoom roomID) update_state
                                        (upd_room roomID
                                           (\<lambda>r. r\<lparr>players := (players r)(slot := None), started := False\<rparr>) w0)
                             | spectator \<Rightarrow>
                                 emit (ToRoom roomID) update_state
                                   (upd_room roomID
                                      (\<lambda>r. r\<lparr>spectators := filter (\<lambda>s. spec_id s \<noteq> sid) (spectators r)\<rparr>) w0)
                             | no_slot \<Rightarrow> w0)
                   in if adapter_rooms w1 roomID = {} then w1\<lparr>rooms := (rooms w1)(roomID := None)\<rparr>
                      else w1)))"

section \<open>Quantities and states used in the properties\<close>

text \<open>
  The number of pieces of an owner anywhere on the board, at any depth of a stack, and
  the number of pieces left in a hand.
\<close>

definition owned_in_stack :: "slot \<Rightarrow> stack \<Rightarrow> nat" where
  "owned_in_stack s st = length (filter (\<lambda>p. owner p = s) st)"

definition owned_on_board :: "slot \<Rightarrow> board \<Rightarrow> nat" where
  "owned_on_board s b = sum_list (map (\<lambda>row. sum_list (map (owned_in_stack s) row)) b)"

definition hand_total :: "player \<Rightarrow> int" where
  "hand_total pl = pieces pl small + pieces pl medium + pieces pl large"

text \<open>
  A process with two connected sockets \<open>a\<close> and \<open>b\<close> that have not joined any room
  yet, and no room.
\<close>

definition fresh_sock :: sock where
  "fresh_sock = \<lparr>sock_roomID = None, sock_name = None, playerSlot = no_slot\<rparr>"

definition two_sockets :: "'r world" where
  "two_sockets =
     \<lparr>rooms = Map.empty, sockets = [''a'' \<mapsto> fresh_sock, ''b'' \<mapsto> fresh_sock],
      adapter_rooms = (\<lambda>_. {}), emitted = []\<rparr>"

text \<open>
  \<^verbatim>\<open>server.js\<close> after: \<open>a\<close> joins room \<open>x\<close>, \<open>b\<close> joins room \<open>x\<close>, \<open>a\<close> places a
  small piece at (0,0), \<open>b\<close> places a medium piece at (0,1). It is the turn of \<open>A\<close>.
\<close>

definition after_two_moves :: "room_srv world" where
  "after_two_moves =
     fst (place_piece ''b'' (place_from_hand medium (0, 1))
       (fst (place_piece ''a'' (place_from_hand small (0, 0))
         (fst (join ''b'' ''x'' (Some ''Bob'')
           (fst (join ''a'' ''x'' (Some ''Ann'') two_sockets)))))))"

text \<open>A process with four connected sockets that have not joined any room yet.\<close>

definition four_sockets :: "'r world" where
  "four_sockets =
     \<lparr>rooms = Map.empty,
      sockets = [''a'' \<mapsto> fresh_sock, ''b'' \<mapsto> fresh_sock, ''c'' \<mapsto> fresh_sock, ''d'' \<mapsto> fresh_sock],
      adapter_rooms = (\<lambda>_. {}), emitted = []\<rparr>"

text \<open>
  Variant 001 after: \<open>a\<close>, \<open>b\<close>, \<open>c\<close>, \<open>d\<close> join room \<open>x\<close> in this order (so \<open>c\<close> and
  \<open>d\<close> queue as spectators), and \<open>A\<close> completes the top row in five moves.
\<close>

definition joined_001 :: "room_001 world" where
  "joined_001 =
     fst (join_001 ''d'' ''x'' (Some ''Dan'')
       (fst (join_001 ''c'' ''x'' (Some ''Cy'')
         (fst (join_001 ''b'' ''x'' (Some ''Bob'')
           (fst (join_001 ''a'' ''x'' (Some ''Ann'') four_sockets)))))))"

definition won_001 :: "room_001 world" where
  "won_001 =
     fst (place_piece_001 ''a'' (place_from_hand medium (0, 2))
       (fst (place_piece_001 ''b'' (place_from_hand small (1, 1))
         (fst (place_piece_001 ''a'' (place_from_hand small (0, 1))
           (fst (place_piece_001 ''b'' (place_from_hand small (1, 0))
             (fst (place_piece_001 ''a'' (place_from_hand small (0, 0)) joined_001)))))))))"

text \<open>
  From there: \<open>c\<close> joins another room \<open>y\<close> and then disconnects, which leaves its entry
  in the queue of \<open>x\<close> behind; then \<open>a\<close> decides to leave.
\<close>

definition stale_001 :: "room_001 world" where
  "stale_001 =
     post_game_decision ''a'' (Some ''leave'')
       (disconnect_001 ''c'' (fst (join_001 ''c'' ''y'' (Some ''Cy'') won_001)))"

text \<open>Variant 000 after \<open>a\<close> and \<open>b\<close> have joined room \<open>x\<close>: the match is running.\<close>

definition running_000 :: "room world" where
  "running_000 =
     fst (join_000 ''b'' ''x'' (Some ''Bob'') (fst (join_000 ''a'' ''x'' (Some ''Ann'') four_sockets)))"

text \<open>
  \<^verbatim>\<open>server.js\<close> after: \<open>a\<close> and \<open>b\<close> join room \<open>x\<close>, \<open>A\<close> completes the top row in
  five moves, and \<open>a\<close> sends the decision \<^verbatim>\<open>continue\<close>.
\<close>

definition won_srv :: "room_srv world" where
  "won_srv =
     fst (place_piece ''a'' (place_from_hand medium (0, 2))
       (fst (place_piece ''b'' (place_from_hand small (1, 1))
         (fst (place_piece ''a'' (place_from_hand small (0, 1))
           (fst (place_piece ''b'' (place_from_hand small (1, 0))
             (fst (place_piece ''a'' (place_from_hand small (0, 0))
               (fst (join ''b'' ''x'' (Some ''Bob'')
                 (fst (join ''a'' ''x'' (Some ''Ann'') two_sockets)))))))))))))"



section \<open>Shared simplification rules\<close>

lemmas world_simps = emit_def upd_room_def upd_sock_def socket_join_def socket_leave_def

section \<open>Properties of the rules engine\<close>

lemma cell_at_wf: "wf_board b \<Longrightarrow> r < 3 \<Longrightarrow> c < 3 \<Longrightarrow> cell_at b r c = Some (b ! r ! c)"
  by (simp add: wf_board_def cell_at_def list_all_length)

text \<open>
  Claim C7. On a 3\<times>3 board, for every cell \<open>(r, c)\<close> and every size, \<^verbatim>\<open>canPlaceAt\<close>
  (in each of the three server files) returns true if and only if the stack of the
  target cell is empty or the size of its top piece is strictly smaller than the size
  to place; so it returns false whenever the top piece has equal or larger size. The
  order of the sizes is small < medium < large.
\<close>

theorem canPlaceAt_iff:
  assumes "wf_board b" and "r < 3" and "c < 3"
  shows "canPlaceAt b r c sz
           = Some (b ! r ! c = [] \<or> SIZE_VAL (piece_size (last (b ! r ! c))) < SIZE_VAL sz)
       \<and> canPlaceAt_000 b r c sz
           = Some (b ! r ! c = [] \<or> SIZE_VAL (piece_size (last (b ! r ! c))) < SIZE_VAL sz)
       \<and> canPlaceAt_001 b r c sz
           = Some (b ! r ! c = [] \<or> SIZE_VAL (piece_size (last (b ! r ! c))) < SIZE_VAL sz)
       \<and> SIZE_VAL small < SIZE_VAL medium \<and> SIZE_VAL medium < SIZE_VAL large"
  using cell_at_wf [OF assms]
  by (simp add: canPlaceAt_def canPlaceAt_000_def canPlaceAt_001_def at_last_def Let_def)

theorem canPlaceAt_iff_witness:
  "wf_board [[[\<lparr>owner = A, piece_size = medium, color = None\<rparr>],[],[]],[[],[],[]],[[],[],[]]]
 \<and> (0::nat) < 3
 \<and> canPlaceAt [[[\<lparr>owner = A, piece_size = medium, color = None\<rparr>],[],[]],[[],[],[]],[[],[],[]]] 0 0 large
      = Some True
 \<and> canPlaceAt [[[\<lparr>owner = A, piece_size = medium, color = None\<rparr>],[],[]],[[],[],[]],[[],[],[]]] 0 0 medium
      = Some False
 \<and> canPlaceAt_000 [[[\<lparr>owner = A, piece_size = medium, color = None\<rparr>],[],[]],[[],[],[]],[[],[],[]]] 0 0 small
      = Some False
 \<and> canPlaceAt_001 [[[\<lparr>owner = A, piece_size = medium, color = None\<rparr>],[],[]],[[],[],[]],[[],[],[]]] 0 1 small
      = Some True"
proof -
  let ?b = "[[[\<lparr>owner = A, piece_size = medium, color = None\<rparr>],[],[]],[[],[],[]],[[],[],[]]]"
  have wf: "wf_board ?b" by (simp add: wf_board_def)
  have z: "(0::nat) < 3" and o: "(1::nat) < 3" by simp_all
  show ?thesis
    using wf canPlaceAt_iff [OF wf z z, of large] canPlaceAt_iff [OF wf z z, of medium]
      canPlaceAt_iff [OF wf z z, of small] canPlaceAt_iff [OF wf z o, of small]
    by simp
qed

lemma top_owner_eq_000: "top_owner b rc = topOwner_000 b rc"
  by (simp add: top_owner_def topOwner_000_def at_last_def split: option.splits)

lemma top_owner_eq_001: "topOwner_000 b rc = topOwner_001 b rc"
  by (simp add: topOwner_001_def topOwner_000_def)

lemma scan_eq_000: "winner_scan b ls = winner_scan_000 b ls"
proof (induction ls)
  case Nil show ?case by simp
next
  case (Cons l ls)
  have "map_raise (top_owner b) l = map_raise (topOwner_000 b) l"
    by (rule arg_cong [where f = "\<lambda>f. map_raise f l"]) (rule ext, rule top_owner_eq_000)
  with Cons show ?case by (simp split: option.splits)
qed

lemma scan_eq_001: "winner_scan_000 b ls = winner_scan_001 b ls"
proof (induction ls)
  case Nil show ?case by simp
next
  case (Cons l ls)
  have "map_raise (topOwner_000 b) l = map_raise (topOwner_001 b) l"
    by (rule arg_cong [where f = "\<lambda>f. map_raise f l"]) (rule ext, rule top_owner_eq_001)
  with Cons show ?case by (simp split: option.splits)
qed

text \<open>
  Claim C10. The rules engines of the three server files are extensionally equal: for
  every board, cell and size the three \<^verbatim>\<open>canPlaceAt\<close> functions return the same
  result, and for every board the three \<^verbatim>\<open>checkWinner\<close> functions return the same
  slot or \<^verbatim>\<open>null\<close> (and raise on the same malformed boards).
\<close>

theorem rules_engines_equal:
  "canPlaceAt b r c sz = canPlaceAt_000 b r c sz
 \<and> canPlaceAt_000 b r c sz = canPlaceAt_001 b r c sz
 \<and> checkWinner b = checkWinner_000 b
 \<and> checkWinner_000 b = checkWinner_001 b"
proof -
  have 1: "canPlaceAt b r c sz = canPlaceAt_000 b r c sz"
    by (simp add: canPlaceAt_def canPlaceAt_000_def Let_def split: option.splits)
  have 2: "canPlaceAt_000 b r c sz = canPlaceAt_001 b r c sz"
    by (simp add: canPlaceAt_000_def canPlaceAt_001_def)
  have 3: "checkWinner b = checkWinner_000 b"
    by (simp add: checkWinner_def checkWinner_000_def L_def lines_000_def scan_eq_000)
  have 4: "checkWinner_000 b = checkWinner_001 b"
    by (simp add: checkWinner_000_def checkWinner_001_def lines_000_def lines_001_def scan_eq_001)
  from 1 2 3 4 show ?thesis by blast
qed


lemma map_raise_top_owner:
  assumes "wf_board b" and "\<forall>rc\<in>set l. fst rc < 3 \<and> snd rc < 3"
  shows "map_raise (top_owner b) l
           = Some (map (\<lambda>rc. map_option owner (at_last (b ! fst rc ! snd rc))) l)"
  using assms(2)
proof (induction l)
  case Nil show ?case by simp
next
  case (Cons x xs)
  then show ?case using cell_at_wf [OF assms(1), of "fst x" "snd x"]
    by (simp add: top_owner_def)
qed

lemma every_same_owner:
  assumes "l \<noteq> []"
  shows "list_all (\<lambda>x. x \<noteq> None \<and> x = first_elem (map (\<lambda>rc. map_option owner (at_last (b ! fst rc ! snd rc))) l))
            (map (\<lambda>rc. map_option owner (at_last (b ! fst rc ! snd rc))) l)
         = (\<exists>w. \<forall>rc\<in>set l. b ! fst rc ! snd rc \<noteq> [] \<and> owner (last (b ! fst rc ! snd rc)) = w)"
proof -
  obtain x xs where l: "l = x # xs" using assms by (cases l) auto
  show ?thesis
    unfolding l by (auto simp: first_elem_def list_all_iff at_last_def split: if_splits)
qed

lemma first_owner:
  assumes "l \<noteq> []" and "\<forall>rc\<in>set l. b ! fst rc ! snd rc \<noteq> [] \<and> owner (last (b ! fst rc ! snd rc)) = w"
  shows "first_elem (map (\<lambda>rc. map_option owner (at_last (b ! fst rc ! snd rc))) l) = Some w"
proof -
  obtain x xs where l: "l = x # xs" using assms by (cases l) auto
  show ?thesis using assms(2) unfolding l by (simp add: first_elem_def at_last_def)
qed

lemma winner_scan_Some:
  assumes "wf_board b"
    and "\<forall>l\<in>set ls. l \<noteq> [] \<and> (\<forall>rc\<in>set l. fst rc < 3 \<and> snd rc < 3)"
  shows "(winner_scan b ls = Some (Some w))
       = (\<exists>i<length ls.
            (\<forall>rc\<in>set (ls ! i). b ! fst rc ! snd rc \<noteq> [] \<and> owner (last (b ! fst rc ! snd rc)) = w)
          \<and> (\<forall>j<i. \<not> (\<exists>w'. \<forall>rc\<in>set (ls ! j).
                         b ! fst rc ! snd rc \<noteq> [] \<and> owner (last (b ! fst rc ! snd rc)) = w')))"
  using assms(2)
proof (induction ls)
  case Nil show ?case by simp
next
  case (Cons l ls)
  let ?won = "\<lambda>l w. \<forall>rc\<in>set l. b ! fst rc ! snd rc \<noteq> [] \<and> owner (last (b ! fst rc ! snd rc)) = w"
  have l: "l \<noteq> []" and rng: "\<forall>rc\<in>set l. fst rc < 3 \<and> snd rc < 3" using Cons.prems by auto
  have IH: "(winner_scan b ls = Some (Some w))
       = (\<exists>i<length ls. ?won (ls ! i) w \<and> (\<forall>j<i. \<not> (\<exists>w'. ?won (ls ! j) w')))"
    using Cons by simp
  note mr = map_raise_top_owner [OF assms(1) rng]
  show ?case
  proof (cases "\<exists>w'. ?won l w'")
    case True
    then obtain w' where w': "?won l w'" by blast
    have "list_all (\<lambda>x. x \<noteq> None \<and> x = first_elem (map (\<lambda>rc. map_option owner (at_last (b ! fst rc ! snd rc))) l))
            (map (\<lambda>rc. map_option owner (at_last (b ! fst rc ! snd rc))) l)"
      using True every_same_owner [OF l, of b] by blast
    then have scan: "winner_scan b (l # ls) = Some (Some w')"
      using first_owner [OF l w'] by (simp add: mr)
    show ?thesis
    proof
      assume "winner_scan b (l # ls) = Some (Some w)"
      with scan have "w' = w" by simp
      with w' have "?won ((l # ls) ! 0) w \<and> (\<forall>j<0::nat. \<not> (\<exists>w'. ?won ((l # ls) ! j) w'))" by simp
      then show "\<exists>i<length (l # ls). ?won ((l # ls) ! i) w \<and> (\<forall>j<i. \<not> (\<exists>w'. ?won ((l # ls) ! j) w'))"
        by (intro exI [of _ 0]) simp
    next
      assume "\<exists>i<length (l # ls). ?won ((l # ls) ! i) w \<and> (\<forall>j<i. \<not> (\<exists>w'. ?won ((l # ls) ! j) w'))"
      then obtain i where i: "i < length (l # ls)" "?won ((l # ls) ! i) w"
        "\<forall>j<i. \<not> (\<exists>w'. ?won ((l # ls) ! j) w')" by blast
      have "i = 0"
      proof (rule ccontr)
        assume "i \<noteq> 0"
        then have "0 < i" by simp
        with i(3) have "\<not> (\<exists>w'. ?won ((l # ls) ! 0) w')" by blast
        with True show False by simp
      qed
      with i(2) have wl: "?won l w" by simp
      obtain x xs where lx: "l = x # xs" using l by (cases l) auto
      from wl lx have "owner (last (b ! fst x ! snd x)) = w" by simp
      moreover from w' lx have "owner (last (b ! fst x ! snd x)) = w'" by simp
      ultimately have "w = w'" by simp
      with scan show "winner_scan b (l # ls) = Some (Some w)" by simp
    qed
  next
    case False
    have "\<not> list_all (\<lambda>x. x \<noteq> None \<and> x = first_elem (map (\<lambda>rc. map_option owner (at_last (b ! fst rc ! snd rc))) l))
            (map (\<lambda>rc. map_option owner (at_last (b ! fst rc ! snd rc))) l)"
      using False every_same_owner [OF l, of b] by blast
    then have scan: "winner_scan b (l # ls) = winner_scan b ls"
      by (simp add: mr)
    show ?thesis
    proof
      assume "winner_scan b (l # ls) = Some (Some w)"
      with scan IH obtain i where i: "i < length ls" "?won (ls ! i) w"
        "\<forall>j<i. \<not> (\<exists>w'. ?won (ls ! j) w')" by auto
      have "\<forall>j<Suc i. \<not> (\<exists>w'. ?won ((l # ls) ! j) w')"
      proof (intro allI impI)
        fix j assume "j < Suc i"
        then show "\<not> (\<exists>w'. ?won ((l # ls) ! j) w')"
          using False i(3) by (cases j) auto
      qed
      with i(1,2) show "\<exists>i<length (l # ls). ?won ((l # ls) ! i) w \<and> (\<forall>j<i. \<not> (\<exists>w'. ?won ((l # ls) ! j) w'))"
        by (intro exI [of _ "Suc i"]) simp
    next
      assume "\<exists>i<length (l # ls). ?won ((l # ls) ! i) w \<and> (\<forall>j<i. \<not> (\<exists>w'. ?won ((l # ls) ! j) w'))"
      then obtain i where i: "i < length (l # ls)" "?won ((l # ls) ! i) w"
        "\<forall>j<i. \<not> (\<exists>w'. ?won ((l # ls) ! j) w')" by blast
      from i(2) False obtain k where k: "i = Suc k" by (cases i) auto
      have "\<forall>j<k. \<not> (\<exists>w'. ?won (ls ! j) w')"
      proof (intro allI impI)
        fix j assume "j < k"
        then have "Suc j < i" using k by simp
        with i(3) have "\<not> (\<exists>w'. ?won ((l # ls) ! Suc j) w')" by blast
        then show "\<not> (\<exists>w'. ?won (ls ! j) w')" by simp
      qed
      with i(1,2) k have "\<exists>i<length ls. ?won (ls ! i) w \<and> (\<forall>j<i. \<not> (\<exists>w'. ?won (ls ! j) w'))"
        by (intro exI [of _ k]) simp
      with IH scan show "winner_scan b (l # ls) = Some (Some w)" by simp
    qed
  qed
qed

lemma winner_scan_total:
  assumes "wf_board b"
    and "\<forall>l\<in>set ls. l \<noteq> [] \<and> (\<forall>rc\<in>set l. fst rc < 3 \<and> snd rc < 3)"
  shows "winner_scan b ls \<noteq> None"
  using assms(2)
proof (induction ls)
  case Nil show ?case by simp
next
  case (Cons l ls)
  have rng: "\<forall>rc\<in>set l. fst rc < 3 \<and> snd rc < 3" using Cons.prems by auto
  show ?case using Cons by (simp add: map_raise_top_owner [OF assms(1) rng])
qed

lemma L_ok: "\<forall>l\<in>set L. l \<noteq> [] \<and> (\<forall>rc\<in>set l. fst rc < 3 \<and> snd rc < 3)"
  by (simp add: L_def)

text \<open>
  Claim C8. \<^verbatim>\<open>checkWinner\<close> scans the eight lines in the fixed order three rows, three
  columns, two diagonals. On a 3\<times>3 board it returns owner \<open>w\<close> exactly when some line
  has three non-empty cells whose top pieces all belong to \<open>w\<close> and no earlier line of
  the scan order is held by any owner; it returns \<^verbatim>\<open>null\<close> exactly when no line is
  held by an owner; and it never raises. So with two simultaneous winning lines of
  different owners the owner of the earlier line is returned. The \<^verbatim>\<open>checkWinner\<close>
  functions of the variants 000 and 001 return the same result.
\<close>

theorem checkWinner_first_line:
  assumes "wf_board b"
  shows "L = map (\<lambda>r. [(r,0),(r,1),(r,2)]) [0,1,2] @ map (\<lambda>c. [(0,c),(1,c),(2,c)]) [0,1,2]
               @ [[(0,0),(1,1),(2,2)], [(0,2),(1,1),(2,0)]]
       \<and> (checkWinner b = Some (Some w)
            \<longleftrightarrow> (\<exists>i<8. (\<forall>rc\<in>set (L ! i). b ! fst rc ! snd rc \<noteq> []
                                 \<and> owner (last (b ! fst rc ! snd rc)) = w)
                      \<and> (\<forall>j<i. \<not> (\<exists>w'. \<forall>rc\<in>set (L ! j). b ! fst rc ! snd rc \<noteq> []
                                 \<and> owner (last (b ! fst rc ! snd rc)) = w'))))
       \<and> (checkWinner b = Some None
            \<longleftrightarrow> \<not> (\<exists>i<8. \<exists>w'. \<forall>rc\<in>set (L ! i). b ! fst rc ! snd rc \<noteq> []
                                 \<and> owner (last (b ! fst rc ! snd rc)) = w'))
       \<and> checkWinner b \<noteq> None
       \<and> checkWinner_000 b = checkWinner b \<and> checkWinner_001 b = checkWinner b"
proof -
  let ?won = "\<lambda>l w. \<forall>rc\<in>set l. b ! fst rc ! snd rc \<noteq> [] \<and> owner (last (b ! fst rc ! snd rc)) = w"
  have len: "length L = 8" by (simp add: L_def)
  have 1: "L = map (\<lambda>r. [(r,0),(r,1),(r,2)]) [0,1,2] @ map (\<lambda>c. [(0,c),(1,c),(2,c)]) [0,1,2]
               @ [[(0,0),(1,1),(2,2)], [(0,2),(1,1),(2,0)]]"
    by (simp add: L_def)
  have S: "\<And>w. (checkWinner b = Some (Some w))
       = (\<exists>i<8. ?won (L ! i) w \<and> (\<forall>j<i. \<not> (\<exists>w'. ?won (L ! j) w')))"
    using winner_scan_Some [OF assms L_ok] by (simp add: checkWinner_def len)
  have T: "checkWinner b \<noteq> None"
    using winner_scan_total [OF assms L_ok] by (simp add: checkWinner_def)
  have N: "(checkWinner b = Some None) = (\<not> (\<exists>i<8. \<exists>w'. ?won (L ! i) w'))"
  proof
    assume a: "checkWinner b = Some None"
    show "\<not> (\<exists>i<8. \<exists>w'. ?won (L ! i) w')"
    proof
      assume "\<exists>i<8. \<exists>w'. ?won (L ! i) w'"
      then obtain i where "i < 8 \<and> (\<exists>w'. ?won (L ! i) w')" by blast
      then have ex: "\<exists>i. i < 8 \<and> (\<exists>w'. ?won (L ! i) w')" by blast
      define k where "k = (LEAST i. i < 8 \<and> (\<exists>w'. ?won (L ! i) w'))"
      have k: "k < 8 \<and> (\<exists>w'. ?won (L ! k) w')"
        unfolding k_def using ex by (rule LeastI_ex)
      have min: "\<forall>j<k. \<not> (\<exists>w'. ?won (L ! j) w')"
      proof (intro allI impI)
        fix j assume jk: "j < k"
        show "\<not> (\<exists>w'. ?won (L ! j) w')"
        proof
          assume "\<exists>w'. ?won (L ! j) w'"
          with jk k have "j < 8 \<and> (\<exists>w'. ?won (L ! j) w')" by simp
          then have "k \<le> j" unfolding k_def by (rule Least_le)
          with jk show False by simp
        qed
      qed
      from k obtain w' where "?won (L ! k) w'" by blast
      with k min have "checkWinner b = Some (Some w')" using S [of w'] by blast
      with a show False by simp
    qed
  next
    assume n: "\<not> (\<exists>i<8. \<exists>w'. ?won (L ! i) w')"
    have "\<And>w. checkWinner b \<noteq> Some (Some w)"
    proof
      fix w assume "checkWinner b = Some (Some w)"
      with S [of w] n show False by blast
    qed
    with T show "checkWinner b = Some None" by (cases "checkWinner b") auto
  qed
  have V: "checkWinner_000 b = checkWinner b" "checkWinner_001 b = checkWinner b"
    by (simp_all add: checkWinner_def checkWinner_000_def checkWinner_001_def L_def lines_000_def
        lines_001_def scan_eq_000 scan_eq_001)
  from 1 S [of w] N T V show ?thesis by blast
qed

theorem checkWinner_first_line_witness:
  "wf_board [[[\<lparr>owner = B, piece_size = small, color = None\<rparr>],
              [\<lparr>owner = B, piece_size = small, color = None\<rparr>],
              [\<lparr>owner = A, piece_size = small, color = None\<rparr>,
               \<lparr>owner = B, piece_size = large, color = None\<rparr>]],
             [[],[],[]],
             [[\<lparr>owner = A, piece_size = medium, color = None\<rparr>],
              [\<lparr>owner = A, piece_size = medium, color = None\<rparr>],
              [\<lparr>owner = A, piece_size = large, color = None\<rparr>]]]
 \<and> checkWinner [[[\<lparr>owner = B, piece_size = small, color = None\<rparr>],
              [\<lparr>owner = B, piece_size = small, color = None\<rparr>],
              [\<lparr>owner = A, piece_size = small, color = None\<rparr>,
               \<lparr>owner = B, piece_size = large, color = None\<rparr>]],
             [[],[],[]],
             [[\<lparr>owner = A, piece_size = medium, color = None\<rparr>],
              [\<lparr>owner = A, piece_size = medium, color = None\<rparr>],
              [\<lparr>owner = A, piece_size = large, color = None\<rparr>]]] = Some (Some B)"
proof -
  let ?b = "[[[\<lparr>owner = B, piece_size = small, color = None\<rparr>],
              [\<lparr>owner = B, piece_size = small, color = None\<rparr>],
              [\<lparr>owner = A, piece_size = small, color = None\<rparr>,
               \<lparr>owner = B, piece_size = large, color = None\<rparr>]],
             [[],[],[]],
             [[\<lparr>owner = A, piece_size = medium, color = None\<rparr>],
              [\<lparr>owner = A, piece_size = medium, color = None\<rparr>],
              [\<lparr>owner = A, piece_size = large, color = None\<rparr>]]]"
  have wf: "wf_board ?b" by (simp add: wf_board_def)
  have "(\<forall>rc\<in>set (L ! 0). ?b ! fst rc ! snd rc \<noteq> [] \<and> owner (last (?b ! fst rc ! snd rc)) = B)
      \<and> (\<forall>j<0::nat. \<not> (\<exists>w'. \<forall>rc\<in>set (L ! j). ?b ! fst rc ! snd rc \<noteq> []
                                 \<and> owner (last (?b ! fst rc ! snd rc)) = w'))"
    by (simp add: L_def)
  then have "\<exists>i<8::nat. (\<forall>rc\<in>set (L ! i). ?b ! fst rc ! snd rc \<noteq> [] \<and> owner (last (?b ! fst rc ! snd rc)) = B)
      \<and> (\<forall>j<i. \<not> (\<exists>w'. \<forall>rc\<in>set (L ! j). ?b ! fst rc ! snd rc \<noteq> []
                                 \<and> owner (last (?b ! fst rc ! snd rc)) = w'))"
    by (intro exI [of _ 0]) simp
  with wf checkWinner_first_line [OF wf, of B] show ?thesis by blast
qed

section \<open>Moves: rejected requests and conservation of pieces\<close>


lemma after_two_moves_room:
  "rooms after_two_moves ''x'' =
     Some \<lparr>board = [[[\<lparr>owner = A, piece_size = small, color = None\<rparr>],
                      [\<lparr>owner = B, piece_size = medium, color = None\<rparr>], []],
                     [[],[],[]],[[],[],[]]],
           players = (\<lambda>_. None)
             (A \<mapsto> \<lparr>player_id = ''a'', player_name = Some ''Ann'', player_color = None,
                    pieces = full_hand(small := 1)\<rparr>,
              B \<mapsto> \<lparr>player_id = ''b'', player_name = Some ''Bob'', player_color = None,
                    pieces = full_hand(medium := 1)\<rparr>),
           currentTurn = Some A, winner = None, started = True,
           watchQueue = [], postDecisions = (\<lambda>_. None),
           players_extra = (\<lambda>_. None)\<rparr>"
  unfolding after_two_moves_def two_sockets_def fresh_sock_def
  by (simp add: join_def place_piece_def place_move_def world_simps createNewGameState_def room_of_def
        canPlaceAt_def cell_at_def at_last_def push_cell_def set_cell_def
        checkWinner_def L_def top_owner_def first_elem_def Let_def full_hand_def)

lemma after_two_moves_sock:
  "sockets after_two_moves ''a'' =
     Some \<lparr>sock_roomID = Some ''x'', sock_name = Some ''Ann'', playerSlot = PlayerSlot A\<rparr>"
  unfolding after_two_moves_def two_sockets_def fresh_sock_def
  by (simp add: join_def place_piece_def place_move_def world_simps createNewGameState_def room_of_def
        canPlaceAt_def cell_at_def at_last_def push_cell_def set_cell_def
        checkWinner_def L_def top_owner_def first_elem_def Let_def full_hand_def)

lemma rejected_move_result:
  "place_piece ''a'' (move_on_board (0, 0) (0, 1)) after_two_moves =
     (after_two_moves\<lparr>rooms := (rooms after_two_moves)(''x'' \<mapsto>
        \<lparr>board = [[[], [\<lparr>owner = B, piece_size = medium, color = None\<rparr>], []],
                     [[],[],[]],[[],[],[]]],
           players = (\<lambda>_. None)
             (A \<mapsto> \<lparr>player_id = ''a'', player_name = Some ''Ann'', player_color = None,
                    pieces = full_hand(small := 1)\<rparr>,
              B \<mapsto> \<lparr>player_id = ''b'', player_name = Some ''Bob'', player_color = None,
                    pieces = full_hand(medium := 1)\<rparr>),
           currentTurn = Some A, winner = None, started = True,
           watchQueue = [], postDecisions = (\<lambda>_. None),
           players_extra = (\<lambda>_. None)\<rparr>)\<rparr>,
      Some (ack_error invalid))"
  by (simp add: place_piece_def room_of_def after_two_moves_room after_two_moves_sock place_move_def
        canPlaceAt_def cell_at_def at_last_def pop_cell_def push_cell_def set_cell_def Let_def)

text \<open>
  Claim C1. A rejected \<^verbatim>\<open>place_piece\<close> request must leave the room as it was. In
  \<^verbatim>\<open>server.js\<close> the \<^verbatim>\<open>move_on_board\<close> branch pops the source cell before it checks
  the destination: after the two opening placements, \<open>A\<close> asks to move its small
  piece from (0,0) onto the medium piece at (0,1); the request is answered with the
  error \<^verbatim>\<open>invalid\<close>, nothing is broadcast, and the piece has disappeared from (0,0).
\<close>

theorem rejected_move_drops_piece:
  "snd (place_piece ''a'' (move_on_board (0, 0) (0, 1)) after_two_moves) = Some (ack_error invalid)
 \<and> map_option board (rooms after_two_moves ''x'') =
     Some [[[\<lparr>owner = A, piece_size = small, color = None\<rparr>],
            [\<lparr>owner = B, piece_size = medium, color = None\<rparr>], []], [[],[],[]], [[],[],[]]]
 \<and> map_option board (rooms (fst (place_piece ''a'' (move_on_board (0, 0) (0, 1)) after_two_moves)) ''x'') =
     Some [[[], [\<lparr>owner = B, piece_size = medium, color = None\<rparr>], []], [[],[],[]], [[],[],[]]]
 \<and> emitted (fst (place_piece ''a'' (move_on_board (0, 0) (0, 1)) after_two_moves))
     = emitted after_two_moves"
  unfolding rejected_move_result by (simp add: after_two_moves_room)

theorem rejected_move_drops_piece_witness:
  "map_option board (rooms (fst (place_piece ''a'' (move_on_board (0, 0) (0, 1)) after_two_moves)) ''x'')
     \<noteq> map_option board (rooms after_two_moves ''x'')
 \<and> snd (place_piece ''a'' (move_on_board (0, 0) (0, 1)) after_two_moves) \<noteq> Some ack_ok"
  using rejected_move_drops_piece by auto

text \<open>
  Claim C2. Hand plus pieces on the board stay at six for each slot. In the same run of
  \<^verbatim>\<open>server.js\<close> the sum for \<open>A\<close> is 6 before the rejected move and 5 after it: the
  popped piece is neither on the board nor back in the hand.
\<close>

theorem rejected_move_breaks_conservation:
  "map_option (\<lambda>r. map_option (\<lambda>pl. hand_total pl + int (owned_on_board A (board r))) (players r A))
     (rooms after_two_moves ''x'') = Some (Some 6)
 \<and> map_option (\<lambda>r. map_option (\<lambda>pl. hand_total pl + int (owned_on_board A (board r))) (players r A))
     (rooms (fst (place_piece ''a'' (move_on_board (0, 0) (0, 1)) after_two_moves)) ''x'') = Some (Some 5)
 \<and> snd (place_piece ''a'' (move_on_board (0, 0) (0, 1)) after_two_moves) = Some (ack_error invalid)"
  unfolding rejected_move_result
  by (simp add: after_two_moves_room hand_total_def owned_on_board_def
        owned_in_stack_def full_hand_def)

theorem rejected_move_breaks_conservation_witness:
  "map_option (\<lambda>r. map_option (\<lambda>pl. hand_total pl + int (owned_on_board A (board r))) (players r A))
     (rooms (fst (place_piece ''a'' (move_on_board (0, 0) (0, 1)) after_two_moves)) ''x'')
   \<noteq> map_option (\<lambda>r. map_option (\<lambda>pl. hand_total pl + int (owned_on_board A (board r))) (players r A))
     (rooms after_two_moves ''x'')"
  using rejected_move_breaks_conservation by auto

section \<open>Post-game resolution in variant 001: two runs\<close>

text \<open>
  Claim C3. Resolution must not run while an occupied slot is undecided. In variant 001
  the \<^verbatim>\<open>disconnect\<close> handler calls \<^verbatim>\<open>resolveGameDecisions\<close> without the check the
  \<^verbatim>\<open>post_game_decision\<close> handler makes: after \<open>A\<close> has won, \<open>a\<close> disconnects while
  \<open>b\<close> still occupies slot \<open>B\<close> and has not decided. The resolution runs: the winner
  is cleared, \<open>b\<close> is sent \<^verbatim>\<open>redirect_home\<close> and loses its room binding, and the
  spectator \<open>d\<close> takes slot \<open>B\<close>.
\<close>

theorem disconnect_resolves_undecided:
  "map_option winner (rooms won_001 ''x'') = Some (Some A)
 \<and> map_option (\<lambda>r. map_option player_id (players r B)) (rooms won_001 ''x'') = Some (Some ''b'')
 \<and> map_option (\<lambda>r. pendingDecisions r B) (rooms won_001 ''x'') = Some None
 \<and> map_option (\<lambda>r. pendingDecisions r B) (rooms (disconnect_001 ''a'' won_001) ''x'') = Some None
 \<and> map_option winner (rooms (disconnect_001 ''a'' won_001) ''x'') = Some None
 \<and> map_option (\<lambda>r. map_option player_id (players r B)) (rooms (disconnect_001 ''a'' won_001) ''x'')
     = Some (Some ''d'')
 \<and> sockets (disconnect_001 ''a'' won_001) ''b''
     = Some \<lparr>sock_roomID = None, sock_name = None, playerSlot = no_slot\<rparr>
 \<and> (ToSocket ''b'', redirect_home) \<in> set (emitted (disconnect_001 ''a'' won_001))"
    by code_simp

theorem disconnect_resolves_undecided_witness:
  "map_option (\<lambda>r. pendingDecisions r B) (rooms won_001 ''x'') = Some None
 \<and> map_option winner (rooms (disconnect_001 ''a'' won_001) ''x'')
     \<noteq> map_option winner (rooms won_001 ''x'')
 \<and> map_option (\<lambda>r. map_option player_id (players r B)) (rooms (disconnect_001 ''a'' won_001) ''x'')
     \<noteq> map_option (\<lambda>r. map_option player_id (players r B)) (rooms won_001 ''x'')"
  using disconnect_resolves_undecided by auto

text \<open>
  Claim C5. A stale queue entry must not keep a present spectator behind it from being
  promoted. The fill step of variant 001 takes one entry per empty slot and does not
  go on to the next entry when the connection is gone: with the queue \<open>[c, d]\<close>, \<open>c\<close>
  disconnected and \<open>d\<close> connected, \<open>A\<close> leaving and \<open>B\<close> asking for a rematch, the
  resolution discards \<open>c\<close>, leaves slot \<open>A\<close> empty and \<open>d\<close> in the queue, and the room
  does not start.
\<close>

theorem stale_entry_blocks_promotion:
  "map_option spectators (rooms stale_001 ''x'')
     = Some [\<lparr>spec_id = ''c'', spec_name = Some ''Cy''\<rparr>, \<lparr>spec_id = ''d'', spec_name = Some ''Dan''\<rparr>]
 \<and> sockets stale_001 ''c'' = None
 \<and> sockets stale_001 ''d'' \<noteq> None
 \<and> map_option (\<lambda>r. pendingDecisions r A) (rooms stale_001 ''x'') = Some (Some ''leave'')
 \<and> map_option (\<lambda>r. map_option player_id (players r A))
       (rooms (post_game_decision ''b'' (Some ''rematch'') stale_001) ''x'') = Some None
 \<and> map_option spectators (rooms (post_game_decision ''b'' (Some ''rematch'') stale_001) ''x'')
     = Some [\<lparr>spec_id = ''d'', spec_name = Some ''Dan''\<rparr>]
 \<and> map_option playerSlot (sockets (post_game_decision ''b'' (Some ''rematch'') stale_001) ''d'')
     = Some spectator
 \<and> map_option started (rooms (post_game_decision ''b'' (Some ''rematch'') stale_001) ''x'')
     = Some False"
  by code_simp

theorem stale_entry_blocks_promotion_witness:
  "sockets stale_001 ''d'' \<noteq> None
 \<and> map_option (\<lambda>r. map_option player_id (players r A))
       (rooms (post_game_decision ''b'' (Some ''rematch'') stale_001) ''x'') = Some None
 \<and> map_option (\<lambda>r. map spec_id (spectators r))
       (rooms (post_game_decision ''b'' (Some ''rematch'') stale_001) ''x'') = Some [''d'']"
  using stale_entry_blocks_promotion by auto

section \<open>Join: when a match starts\<close>


text \<open>
  Counterexample to claim C6 as stated: in variant 000 a spectator who joins a running
  match makes the server broadcast \<^verbatim>\<open>start_game\<close>, not \<^verbatim>\<open>update_state\<close>.
\<close>

theorem spectator_join_000_broadcasts_start:
  "map_option started (rooms running_000 ''x'') = Some True
 \<and> map_option (\<lambda>r. map_option player_id (players r A)) (rooms running_000 ''x'') = Some (Some ''a'')
 \<and> map_option (\<lambda>r. map_option player_id (players r B)) (rooms running_000 ''x'') = Some (Some ''b'')
 \<and> snd (snd (join_000 ''c'' ''x'' (Some ''Cy'') running_000)) = spectator
 \<and> emitted (fst (join_000 ''c'' ''x'' (Some ''Cy'') running_000))
     = emitted running_000 @ [(ToRoom ''x'', start_game), (ToSocket ''c'', chat_init)]"
  by code_simp

text \<open>
  Claim C6, amended. For every join event, with \<open>r0\<close> the room before the join (the
  fresh state if the room did not exist) and \<open>r'\<close> the room after it:
  \<^item> variant 001: if both slots are occupied after the assignment and the room was not
    started with no winner pending, then the turn is \<open>A\<close>, the room is started and a
    start event is broadcast; in every other case an update event is broadcast and
    board, turn, started, winner and decisions are unchanged;
  \<^item> variant 000: the same when the room was not started with no winner pending, and
    when not both slots are occupied; when both are occupied and the room was already
    started or has a winner pending, a start event is broadcast and the decisions are
    reset, with board, turn, started and winner unchanged;
  \<^item> \<^verbatim>\<open>server.js\<close>: the same when the room was not started with no winner pending, and
    when not both slots are occupied.
\<close>

theorem join_start_gating:
  assumes "sockets w sid \<noteq> None" and "sockets w0 sid \<noteq> None" and "sockets w1 sid \<noteq> None"
  shows
   "(let r0 = (case rooms w1 rid of None \<Rightarrow> createNewGameState_001 | Some r \<Rightarrow> r);
         w' = fst (join_001 sid rid nm w1);
         slot = snd (snd (join_001 sid rid nm w1))
     in \<exists>r'. rooms w' rid = Some r'
        \<and> (players r' A \<noteq> None \<and> players r' B \<noteq> None \<and> \<not> started r0 \<and> winner r0 = None \<longrightarrow>
              currentTurn r' = Some A \<and> started r'
            \<and> emitted w' = emitted w1 @ [(ToSocket sid, assign slot), (ToRoom rid, start_game),
                                          (ToSocket sid, chat_init)])
        \<and> (\<not> (players r' A \<noteq> None \<and> players r' B \<noteq> None \<and> \<not> started r0 \<and> winner r0 = None) \<longrightarrow>
              emitted w' = emitted w1 @ [(ToSocket sid, assign slot), (ToRoom rid, update_state),
                                          (ToSocket sid, chat_init)]
            \<and> board r' = board r0 \<and> currentTurn r' = currentTurn r0 \<and> started r' = started r0
            \<and> winner r' = winner r0 \<and> pendingDecisions r' = pendingDecisions r0))
  \<and> (let r0 = (case rooms w0 rid of None \<Rightarrow> createNewGameState_000 | Some r \<Rightarrow> r);
         w' = fst (join_000 sid rid nm w0)
     in \<exists>r'. rooms w' rid = Some r'
        \<and> (players r' A \<noteq> None \<and> players r' B \<noteq> None \<and> \<not> started r0 \<and> winner r0 = None \<longrightarrow>
              currentTurn r' = Some A \<and> started r'
            \<and> emitted w' = emitted w0 @ [(ToRoom rid, start_game), (ToSocket sid, chat_init)])
        \<and> (players r' A \<noteq> None \<and> players r' B \<noteq> None \<and> \<not> (\<not> started r0 \<and> winner r0 = None) \<longrightarrow>
              emitted w' = emitted w0 @ [(ToRoom rid, start_game), (ToSocket sid, chat_init)]
            \<and> postDecisions r' = (\<lambda>_. None)
            \<and> board r' = board r0 \<and> currentTurn r' = currentTurn r0 \<and> started r' = started r0
            \<and> winner r' = winner r0)
        \<and> (\<not> (players r' A \<noteq> None \<and> players r' B \<noteq> None) \<longrightarrow>
              emitted w' = emitted w0 @ [(ToRoom rid, update_state), (ToSocket sid, chat_init)]
            \<and> board r' = board r0 \<and> currentTurn r' = currentTurn r0 \<and> started r' = started r0
            \<and> winner r' = winner r0 \<and> postDecisions r' = postDecisions r0))
  \<and> (let r0 = (case rooms w rid of None \<Rightarrow> createNewGameState | Some r \<Rightarrow> r);
         w' = fst (join sid rid nm' w)
     in \<exists>r'. rooms w' rid = Some r'
        \<and> (players r' A \<noteq> None \<and> players r' B \<noteq> None \<and> \<not> started r0 \<and> winner r0 = None \<longrightarrow>
              currentTurn r' = Some A \<and> started r'
            \<and> emitted w' = emitted w @ [(ToRoom rid, start_game)])
        \<and> (\<not> (players r' A \<noteq> None \<and> players r' B \<noteq> None) \<longrightarrow>
              emitted w' = emitted w @ [(ToRoom rid, update_state)]
            \<and> board r' = board r0 \<and> currentTurn r' = currentTurn r0 \<and> started r' = started r0
            \<and> winner r' = winner r0 \<and> postDecisions r' = postDecisions r0))"
proof -
  from assms(3) obtain s1 where s1: "sockets w1 sid = Some s1" by auto
  from assms(2) obtain s0 where s0: "sockets w0 sid = Some s0" by auto
  from assms(1) obtain s where s: "sockets w sid = Some s" by auto
  have p1: "(let r0 = (case rooms w1 rid of None \<Rightarrow> createNewGameState_001 | Some r \<Rightarrow> r);
         w' = fst (join_001 sid rid nm w1);
         slot = snd (snd (join_001 sid rid nm w1))
     in \<exists>r'. rooms w' rid = Some r'
        \<and> (players r' A \<noteq> None \<and> players r' B \<noteq> None \<and> \<not> started r0 \<and> winner r0 = None \<longrightarrow>
              currentTurn r' = Some A \<and> started r'
            \<and> emitted w' = emitted w1 @ [(ToSocket sid, assign slot), (ToRoom rid, start_game),
                                          (ToSocket sid, chat_init)])
        \<and> (\<not> (players r' A \<noteq> None \<and> players r' B \<noteq> None \<and> \<not> started r0 \<and> winner r0 = None) \<longrightarrow>
              emitted w' = emitted w1 @ [(ToSocket sid, assign slot), (ToRoom rid, update_state),
                                          (ToSocket sid, chat_init)]
            \<and> board r' = board r0 \<and> currentTurn r' = currentTurn r0 \<and> started r' = started r0
            \<and> winner r' = winner r0 \<and> pendingDecisions r' = pendingDecisions r0))"
    using s1 by (cases "rooms w1 rid")
      (auto simp: join_001_def world_simps Let_def createNewGameState_001_def)
  have p0: "(let r0 = (case rooms w0 rid of None \<Rightarrow> createNewGameState_000 | Some r \<Rightarrow> r);
         w' = fst (join_000 sid rid nm w0)
     in \<exists>r'. rooms w' rid = Some r'
        \<and> (players r' A \<noteq> None \<and> players r' B \<noteq> None \<and> \<not> started r0 \<and> winner r0 = None \<longrightarrow>
              currentTurn r' = Some A \<and> started r'
            \<and> emitted w' = emitted w0 @ [(ToRoom rid, start_game), (ToSocket sid, chat_init)])
        \<and> (players r' A \<noteq> None \<and> players r' B \<noteq> None \<and> \<not> (\<not> started r0 \<and> winner r0 = None) \<longrightarrow>
              emitted w' = emitted w0 @ [(ToRoom rid, start_game), (ToSocket sid, chat_init)]
            \<and> postDecisions r' = (\<lambda>_. None)
            \<and> board r' = board r0 \<and> currentTurn r' = currentTurn r0 \<and> started r' = started r0
            \<and> winner r' = winner r0)
        \<and> (\<not> (players r' A \<noteq> None \<and> players r' B \<noteq> None) \<longrightarrow>
              emitted w' = emitted w0 @ [(ToRoom rid, update_state), (ToSocket sid, chat_init)]
            \<and> board r' = board r0 \<and> currentTurn r' = currentTurn r0 \<and> started r' = started r0
            \<and> winner r' = winner r0 \<and> postDecisions r' = postDecisions r0))"
    using s0 by (cases "rooms w0 rid")
      (auto simp: join_000_def world_simps Let_def createNewGameState_000_def
         resetPostDecisions_def removeFromWatchQueue_def)
  have p: "(let r0 = (case rooms w rid of None \<Rightarrow> createNewGameState | Some r \<Rightarrow> r);
         w' = fst (join sid rid nm' w)
     in \<exists>r'. rooms w' rid = Some r'
        \<and> (players r' A \<noteq> None \<and> players r' B \<noteq> None \<and> \<not> started r0 \<and> winner r0 = None \<longrightarrow>
              currentTurn r' = Some A \<and> started r'
            \<and> emitted w' = emitted w @ [(ToRoom rid, start_game)])
        \<and> (\<not> (players r' A \<noteq> None \<and> players r' B \<noteq> None) \<longrightarrow>
              emitted w' = emitted w @ [(ToRoom rid, update_state)]
            \<and> board r' = board r0 \<and> currentTurn r' = currentTurn r0 \<and> started r' = started r0
            \<and> winner r' = winner r0 \<and> postDecisions r' = postDecisions r0))"
    using s by (cases "rooms w rid")
      (auto simp: join_def world_simps Let_def createNewGameState_def split: role.splits)
  from p1 p0 p show ?thesis by blast
qed

theorem join_start_gating_witness:
  "sockets (fst (join ''a'' ''x'' (Some ''Ann'') two_sockets)) ''b'' \<noteq> None
 \<and> sockets (fst (join_000 ''a'' ''x'' (Some ''Ann'') two_sockets)) ''b'' \<noteq> None
 \<and> sockets (fst (join_001 ''a'' ''x'' (Some ''Ann'') two_sockets)) ''b'' \<noteq> None
 \<and> map_option (\<lambda>r. (currentTurn r, started r))
      (rooms (fst (join_001 ''b'' ''x'' (Some ''Bob'')
                (fst (join_001 ''a'' ''x'' (Some ''Ann'') two_sockets)))) ''x'') = Some (Some A, True)"
proof -
  let ?ws = "fst (join ''a'' ''x'' (Some ''Ann'') two_sockets)"
  let ?wa = "fst (join_000 ''a'' ''x'' (Some ''Ann'') two_sockets)"
  let ?wb = "fst (join_001 ''a'' ''x'' (Some ''Ann'') two_sockets)"
  let ?wc = "fst (join_001 ''b'' ''x'' (Some ''Bob'') ?wb)"
  have h: "sockets ?ws ''b'' \<noteq> None" by code_simp
  have h0: "sockets ?wa ''b'' \<noteq> None" by code_simp
  have h1: "sockets ?wb ''b'' \<noteq> None" by code_simp
  have before: "map_option (\<lambda>r. \<not> started r \<and> winner r = None) (rooms ?wb ''x'') = Some True"
    by code_simp
  have after: "map_option (\<lambda>r. players r A \<noteq> None \<and> players r B \<noteq> None) (rooms ?wc ''x'') = Some True"
    by code_simp
  from before obtain r0 where r0: "rooms ?wb ''x'' = Some r0" and r0': "\<not> started r0" "winner r0 = None"
    by auto
  note T = join_start_gating [OF h h0 h1, of "''x''" "Some ''Bob''" None, THEN conjunct1,
      unfolded Let_def r0 option.case]
  then obtain r' where r': "rooms ?wc ''x'' = Some r'"
    and imp: "players r' A \<noteq> None \<and> players r' B \<noteq> None \<and> \<not> started r0 \<and> winner r0 = None
               \<longrightarrow> currentTurn r' = Some A \<and> started r'"
    by blast
  from after r' have "players r' A \<noteq> None \<and> players r' B \<noteq> None" by simp
  with imp r0' have "currentTurn r' = Some A \<and> started r'" by blast
  with r' have res: "map_option (\<lambda>r. (currentTurn r, started r)) (rooms ?wc ''x'') = Some (Some A, True)"
    by simp
  from h h0 h1 res show ?thesis by (intro conjI)
qed

section \<open>Forced termination\<close>

lemma promote_scan_dropWhile:
  "promote_scan S q =
     (case dropWhile (\<lambda>i. S i = None) q of
        [] \<Rightarrow> (None, [])
      | i # rest \<Rightarrow> (case S i of None \<Rightarrow> (None, []) | Some s \<Rightarrow> (Some (i, s), rest)))"
proof (induction q)
  case Nil
  show ?case by simp
next
  case (Cons i q)
  show ?case
  proof (cases "S i")
    case None
    with Cons show ?thesis by simp
  next
    case (Some s)
    then show ?thesis by simp
  qed
qed

lemma promoteFromQueue_result:
  assumes "rooms w rid = Some r"
  shows "fst (promoteFromQueue rid s w) =
     (case dropWhile (\<lambda>i. sockets w i = None) (watchQueue r) of
        [] \<Rightarrow> w\<lparr>rooms := (rooms w)(rid \<mapsto> r\<lparr>watchQueue := []\<rparr>)\<rparr>
      | i # rest \<Rightarrow>
          w\<lparr>rooms := (rooms w)(rid \<mapsto> r\<lparr>watchQueue := rest,
                   players := (players r)(s \<mapsto> \<lparr>player_id = i, player_name = sock_name (the (sockets w i)),
                                                  player_color = None, pieces = full_hand\<rparr>)\<rparr>),
            sockets := (sockets w)(i \<mapsto> (the (sockets w i))\<lparr>playerSlot := PlayerSlot s\<rparr>),
            emitted := emitted w @ [(ToSocket i, assign (PlayerSlot s))]\<rparr>)"
proof (cases "dropWhile (\<lambda>i. sockets w i = None) (watchQueue r)")
  case Nil
  show ?thesis using assms
    by (simp add: promoteFromQueue_def promote_scan_dropWhile world_simps Nil)
next
  case (Cons i rest)
  then have "i \<in> set (dropWhile (\<lambda>i. sockets w i = None) (watchQueue r))" by simp
  have "\<not> (sockets w i = None)"
    using hd_dropWhile [of "\<lambda>i. sockets w i = None" "watchQueue r"] Cons by simp
  then obtain sk where sk: "sockets w i = Some sk" by auto
  show ?thesis using assms sk
    by (simp add: promoteFromQueue_def promote_scan_dropWhile world_simps Cons)
qed

text \<open>
  What \<^verbatim>\<open>forceEndGame\<close> does to a room when it is called with a player slot \<open>s\<close>:
  the occupant of \<open>s\<close> (if any) is queued, the occupant of the other slot (if any)
  is moved into \<open>s\<close>, and the other slot is filled from the queue.
\<close>

lemma forceEndGame_slot:
  assumes "rooms w rid = Some r"
  shows
   "(let other = (if s = A then B else A);
         q1 = watchQueue r @ (case players r s of None \<Rightarrow> [] | Some l \<Rightarrow> [player_id l]);
         live = dropWhile (\<lambda>i. sockets w i = None) q1;
         w' = forceEndGame rid (PlayerSlot s) w
     in \<exists>r'. rooms w' rid = Some r'
        \<and> players r' s = map_option (\<lambda>p. p\<lparr>pieces := full_hand\<rparr>) (players r other)
        \<and> players r' other =
            (case live of
               [] \<Rightarrow> None
             | i # _ \<Rightarrow> Some \<lparr>player_id = i, player_name = sock_name (the (sockets w i)),
                               player_color = None, pieces = full_hand\<rparr>)
        \<and> watchQueue r' = tl live
        \<and> board r' = [[[],[],[]],[[],[],[]],[[],[],[]]]
        \<and> winner r' = None \<and> currentTurn r' = Some A
        \<and> started r' = (players r' A \<noteq> None \<and> players r' B \<noteq> None)
        \<and> postDecisions r' = postDecisions r \<and> players_extra r' = players_extra r
        \<and> sockets w' =
            (case live of
               [] \<Rightarrow> sockets w
             | i # _ \<Rightarrow> (sockets w)(i \<mapsto> (the (sockets w i))\<lparr>playerSlot := PlayerSlot other\<rparr>))
        \<and> emitted w' =
            emitted w @ (case live of [] \<Rightarrow> [] | i # _ \<Rightarrow> [(ToSocket i, assign (PlayerSlot other))])
              @ [(ToRoom rid, start_game)])"
proof -
  define other where "other = (if s = A then B else A)"
  define r1 where "r1 = (case players r s of
                       None \<Rightarrow> r
                     | Some l \<Rightarrow> r\<lparr>watchQueue := watchQueue r @ [player_id l],
                                    players := (players r)(s := None)\<rparr>)"
  define r2 where "r2 = (case players r other of
                       None \<Rightarrow> r1
                     | Some ot \<Rightarrow> r1\<lparr>players := (players r1)
                                        (s \<mapsto> ot\<lparr>pieces := full_hand\<rparr>, other := None)\<rparr>)"
  define w0 where "w0 = w\<lparr>rooms := (rooms w)(rid \<mapsto> r2)\<rparr>"
  have os: "other \<noteq> s" by (cases s) (simp_all add: other_def)
  have os': "(if PlayerSlot s = PlayerSlot A then B else A) = other" by (simp add: other_def)
  have q2: "watchQueue r2 = watchQueue r @ (case players r s of None \<Rightarrow> [] | Some l \<Rightarrow> [player_id l])"
    by (simp add: r2_def r1_def split: option.splits)
  have p2s': "reset_pieces (players r2 s) = map_option (\<lambda>p. p\<lparr>pieces := full_hand\<rparr>) (players r other)"
    using os by (auto simp add: r2_def r1_def reset_pieces_def split: option.splits)
  have p2n: "(players r2 s = None) = (players r other = None)"
    using os by (auto simp add: r2_def r1_def split: option.splits)
  have p2o: "players r2 other = None"
    using os by (simp add: r2_def r1_def split: option.splits)
  have d2: "postDecisions r2 = postDecisions r" and e2: "players_extra r2 = players_extra r"
    by (simp_all add: r2_def r1_def split: option.splits)
  have w0r: "rooms w0 rid = Some r2" and w0s: "sockets w0 = sockets w" and w0e: "emitted w0 = emitted w"
    by (simp_all add: w0_def)
  have F: "forceEndGame rid (PlayerSlot s) w
            = emit (ToRoom rid) start_game (upd_room rid resetBoard (fst (promoteFromQueue rid other w0)))"
    unfolding forceEndGame_def os' Let_def
    unfolding w0_def r2_def r1_def player_at_def set_player_at_def
    using assms by (simp split: option.splits)
  show ?thesis
  proof (cases "dropWhile (\<lambda>i. sockets w i = None) (watchQueue r2)")
    case Nil
    show ?thesis
      unfolding Let_def other_def [symmetric] q2 [symmetric] F
        promoteFromQueue_result [OF w0r] w0s Nil
      using os p2s' p2o p2n d2 e2
      by (cases s) (simp_all add: world_simps resetBoard_def w0e w0s reset_pieces_def other_def)
  next
    case (Cons i rest)
    show ?thesis
      unfolding Let_def other_def [symmetric] q2 [symmetric] F
        promoteFromQueue_result [OF w0r] w0s Cons
      using os p2s' p2o p2n d2 e2
      by (cases s) (simp_all add: world_simps resetBoard_def w0e w0s reset_pieces_def other_def full_hand_def)
  qed
qed


text \<open>
  Claim C9, amended. \<^verbatim>\<open>force_quit\<close> sent by the connection that occupies the slot
  \<open>s\<close> its socket records: the sender's identifier is appended to the back of the
  spectator queue and slot \<open>s\<close> is vacated; the occupant of the other slot, if any, is
  moved into slot \<open>s\<close> with a full hand; the other slot is then filled by promotion
  from the queue, first connected entry first (the sender itself when no connected
  spectator waits before it), entries of closed connections before it being dropped;
  the board is reset, the turn is \<open>A\<close>, the winner is cleared and \<open>started\<close> says
  whether both slots are occupied, which is the case exactly when the other slot was
  occupied before; the promoted connection is told its slot, and a start event is
  broadcast in every case.
\<close>

theorem force_quit_effect:
  assumes "sockets w sid = Some sk" and "sock_roomID sk = Some rid"
      and "playerSlot sk = PlayerSlot s"
      and "rooms w rid = Some r" and "players r s = Some pl" and "player_id pl = sid"
  shows
   "(let other = (if s = A then B else A);
         live = dropWhile (\<lambda>i. sockets w i = None) (watchQueue r @ [sid]);
         w' = force_quit sid w
     in live \<noteq> []
      \<and> (\<exists>r'. rooms w' rid = Some r'
           \<and> players r' s = map_option (\<lambda>p. p\<lparr>pieces := full_hand\<rparr>) (players r other)
           \<and> players r' other =
               map_option (\<lambda>k. \<lparr>player_id = hd live, player_name = sock_name k,
                                 player_color = None, pieces = full_hand\<rparr>) (sockets w (hd live))
           \<and> players r' other \<noteq> None
           \<and> watchQueue r' = tl live
           \<and> board r' = [[[],[],[]],[[],[],[]],[[],[],[]]]
           \<and> winner r' = None \<and> currentTurn r' = Some A
           \<and> started r' = (players r other \<noteq> None)
           \<and> postDecisions r' = postDecisions r \<and> players_extra r' = players_extra r)
      \<and> sockets w' (hd live) = map_option (\<lambda>k. k\<lparr>playerSlot := PlayerSlot other\<rparr>) (sockets w (hd live))
      \<and> emitted w' =
          emitted w @ [(ToSocket (hd live), assign (PlayerSlot other)), (ToRoom rid, start_game)])"
proof -
  define other where "other = (if s = A then B else A)"
  define live where "live = dropWhile (\<lambda>i. sockets w i = None) (watchQueue r @ [sid])"
  have os: "other \<noteq> s" by (cases s) (simp_all add: other_def)
  have H: "force_quit sid w = forceEndGame rid (PlayerSlot s) w"
    using assms(1,2,3) by (simp add: force_quit_def)
  have "live \<noteq> []"
    unfolding live_def dropWhile_eq_Nil_conv using assms(1) by auto
  then obtain i rest where L: "live = i # rest" by (cases live) simp_all
  have "\<not> (sockets w i = None)"
    using hd_dropWhile [of "\<lambda>i. sockets w i = None" "watchQueue r @ [sid]"] L
    unfolding live_def by simp
  then obtain k where k: "sockets w i = Some k" by auto
  note E = forceEndGame_slot [OF assms(4), of s, unfolded Let_def other_def [symmetric],
             unfolded assms(5) option.case assms(6) live_def [symmetric] L list.case]
  from E obtain r' where r': "rooms (forceEndGame rid (PlayerSlot s) w) rid = Some r'"
      and R: "players r' s = map_option (\<lambda>p. p\<lparr>pieces := full_hand\<rparr>) (players r other)"
        "players r' other = Some \<lparr>player_id = i, player_name = sock_name (the (sockets w i)),
                               player_color = None, pieces = full_hand\<rparr>"
        "watchQueue r' = tl (i # rest)"
        "board r' = [[[],[],[]],[[],[],[]],[[],[],[]]]"
        "winner r' = None" "currentTurn r' = Some A"
        "started r' = (players r' A \<noteq> None \<and> players r' B \<noteq> None)"
        "postDecisions r' = postDecisions r" "players_extra r' = players_extra r"
      and S: "sockets (forceEndGame rid (PlayerSlot s) w)
                = (sockets w)(i \<mapsto> (the (sockets w i))\<lparr>playerSlot := PlayerSlot other\<rparr>)"
      and M: "emitted (forceEndGame rid (PlayerSlot s) w)
                = emitted w @ [(ToSocket i, assign (PlayerSlot other))] @ [(ToRoom rid, start_game)]"
    by blast
  have st: "started r' = (players r other \<noteq> None)"
    using R(1,2,7) os by (cases s; cases other) auto
  show ?thesis
    unfolding Let_def other_def [symmetric] live_def [symmetric] H
    using r' R(1-6,8,9) st S M k L by simp
qed

theorem force_quit_effect_witness:
  "sockets after_two_moves ''a'' \<noteq> None
 \<and> (\<exists>r'. rooms (force_quit ''a'' after_two_moves) ''x'' = Some r'
        \<and> map_option player_id (players r' A) = Some ''b''
        \<and> map_option pieces (players r' A) = Some full_hand
        \<and> map_option player_id (players r' B) = Some ''a''
        \<and> watchQueue r' = [] \<and> started r')
 \<and> emitted (force_quit ''a'' after_two_moves)
     = emitted after_two_moves @ [(ToSocket ''a'', assign (PlayerSlot B)), (ToRoom ''x'', start_game)]"
  using force_quit_effect [OF after_two_moves_sock _ _ after_two_moves_room,
          where s = A and pl = "\<lparr>player_id = ''a'', player_name = Some ''Ann'', player_color = None,
                                 pieces = full_hand(small := 1)\<rparr>"]
  by (auto simp add: Let_def after_two_moves_room after_two_moves_sock)

text \<open>
  Counterexample to claim C9 as stated: the only player of a waiting room sends
  \<^verbatim>\<open>force_quit\<close>. The player comes back as \<open>B\<close>, slot \<open>A\<close> stays empty, the room is
  not started, and the event that is broadcast is \<^verbatim>\<open>start_game\<close>, not
  \<^verbatim>\<open>update_state\<close>.
\<close>

theorem force_quit_alone_broadcasts_start:
  "map_option (\<lambda>r. map_option player_id (players r A))
     (rooms (force_quit ''a'' (fst (join ''a'' ''x'' (Some ''Ann'') two_sockets))) ''x'') = Some None
 \<and> map_option (\<lambda>r. map_option player_id (players r B))
     (rooms (force_quit ''a'' (fst (join ''a'' ''x'' (Some ''Ann'') two_sockets))) ''x'') = Some (Some ''a'')
 \<and> map_option started
     (rooms (force_quit ''a'' (fst (join ''a'' ''x'' (Some ''Ann'') two_sockets))) ''x'') = Some False
 \<and> emitted (force_quit ''a'' (fst (join ''a'' ''x'' (Some ''Ann'') two_sockets)))
     = emitted (fst (join ''a'' ''x'' (Some ''Ann'') two_sockets))
       @ [(ToSocket ''a'', assign (PlayerSlot B)), (ToRoom ''x'', start_game)]"
  by code_simp

text \<open>
  The hypothesis that the sender occupies the slot its socket records is needed. The
  relocation in \<^verbatim>\<open>forceEndGame\<close> does not write the \<^verbatim>\<open>playerSlot\<close> of the moved
  player's socket (\<^verbatim>\<open>promoteFromQueue\<close> does, for the connection it promotes). With
  \<open>a\<close>, \<open>b\<close> and the spectator \<open>c\<close> in room \<open>x\<close>, \<^verbatim>\<open>force_quit\<close> by \<open>a\<close> moves \<open>b\<close>
  into slot \<open>A\<close> and promotes \<open>c\<close> into \<open>B\<close>, while the socket of \<open>b\<close> still records
  \<open>B\<close>. A \<^verbatim>\<open>force_quit\<close> by \<open>b\<close> then queues \<open>c\<close>, the occupant of \<open>B\<close>, and \<open>b\<close>
  stays a player.
\<close>

lemma force_quit_after_relocation:
  "map_option playerSlot
     (sockets (force_quit ''a''
        (fst (join ''c'' ''x'' (Some ''Cy'')
          (fst (join ''b'' ''x'' (Some ''Bob'')
            (fst (join ''a'' ''x'' (Some ''Ann'') four_sockets))))))) ''b'') = Some (PlayerSlot B)
 \<and> map_option (\<lambda>r. (map_option player_id (players r A), map_option player_id (players r B), watchQueue r))
     (rooms (force_quit ''a''
        (fst (join ''c'' ''x'' (Some ''Cy'')
          (fst (join ''b'' ''x'' (Some ''Bob'')
            (fst (join ''a'' ''x'' (Some ''Ann'') four_sockets))))))) ''x'')
     = Some (Some ''b'', Some ''c'', [''a''])
 \<and> map_option (\<lambda>r. (map_option player_id (players r A), map_option player_id (players r B), watchQueue r))
     (rooms (force_quit ''b'' (force_quit ''a''
        (fst (join ''c'' ''x'' (Some ''Cy'')
          (fst (join ''b'' ''x'' (Some ''Bob'')
            (fst (join ''a'' ''x'' (Some ''Ann'') four_sockets)))))))) ''x'')
     = Some (Some ''a'', Some ''b'', [''c''])"
  by code_simp

section \<open>Post-game resolution: what happens to each slot\<close>








lemma dispatch_001_players:
  assumes "rooms w rid = Some room"
  shows "\<exists>r'. rooms (dispatch_001 rid s c p w) rid = Some r'
           \<and> players r' = (if c = ''leave'' \<or> c = ''spectate'' then (players room)(s := None)
                            else players room)"
  using assms by (auto simp add: dispatch_001_def world_simps Let_def split: option.splits)

lemma fill_001_players:
  assumes "rooms w rid = Some room"
  shows "\<exists>r'. rooms (fill_001 rid s w) rid = Some r'
           \<and> (\<forall>t. t \<noteq> s \<longrightarrow> players r' t = players room t)
           \<and> (players room s \<noteq> None \<longrightarrow> players r' s = players room s)"
  using assms by (auto simp add: fill_001_def world_simps Let_def split: option.splits)

lemma restart_001_room:
  assumes "rooms w rid = Some room"
  shows "\<exists>r'. rooms (restart_001 rid w) rid = Some r'
           \<and> players r' = (\<lambda>s. reset_pieces (players room s))
           \<and> winner r' = None \<and> pendingDecisions r' = (\<lambda>_. None)
           \<and> board r' = [[[],[],[]],[[],[],[]],[[],[],[]]]"
  using assms by (auto simp add: restart_001_def world_simps Let_def)

lemma resolveGameDecisions_room:
  assumes "rooms w rid = Some room"
  shows "\<exists>r'. rooms (resolveGameDecisions rid w) rid = Some r'
           \<and> winner r' = None \<and> pendingDecisions r' = (\<lambda>_. None)
           \<and> (\<forall>s pl. players room s = Some pl
                  \<and> choice_001 (Some pl) (pendingDecisions room s) \<noteq> ''leave''
                  \<and> choice_001 (Some pl) (pendingDecisions room s) \<noteq> ''spectate''
                \<longrightarrow> players r' s = Some (pl\<lparr>pieces := full_hand\<rparr>))"
proof -
  define cA where "cA = choice_001 (players room A) (pendingDecisions room A)"
  define cB where "cB = choice_001 (players room B) (pendingDecisions room B)"
  define w1 where "w1 = dispatch_001 rid A cA (players room A) w"
  define w2 where "w2 = dispatch_001 rid B cB (players room B) w1"
  define w3 where "w3 = fill_001 rid A w2"
  define w4 where "w4 = fill_001 rid B w3"
  have R: "resolveGameDecisions rid w = restart_001 rid w4"
    using assms by (simp add: resolveGameDecisions_def Let_def w4_def w3_def w2_def w1_def cA_def cB_def)
  from dispatch_001_players [OF assms, of A cA "players room A"] obtain r1 where
    r1: "rooms w1 rid = Some r1"
    and p1: "players r1 = (if cA = ''leave'' \<or> cA = ''spectate'' then (players room)(A := None)
                            else players room)"
    unfolding w1_def by blast
  from dispatch_001_players [OF r1, of B cB "players room B"] obtain r2 where
    r2: "rooms w2 rid = Some r2"
    and p2: "players r2 = (if cB = ''leave'' \<or> cB = ''spectate'' then (players r1)(B := None)
                            else players r1)"
    unfolding w2_def by blast
  from fill_001_players [OF r2, of A] obtain r3 where
    r3: "rooms w3 rid = Some r3"
    and p3: "\<forall>t. t \<noteq> A \<longrightarrow> players r3 t = players r2 t"
            "players r2 A \<noteq> None \<longrightarrow> players r3 A = players r2 A"
    unfolding w3_def by blast
  from fill_001_players [OF r3, of B] obtain r4 where
    r4: "rooms w4 rid = Some r4"
    and p4: "\<forall>t. t \<noteq> B \<longrightarrow> players r4 t = players r3 t"
            "players r3 B \<noteq> None \<longrightarrow> players r4 B = players r3 B"
    unfolding w4_def by blast
  from restart_001_room [OF r4] obtain r5 where
    r5: "rooms (restart_001 rid w4) rid = Some r5"
    and p5: "players r5 = (\<lambda>s. reset_pieces (players r4 s))"
    and o5: "winner r5 = None" "pendingDecisions r5 = (\<lambda>_. None)"
    by blast
  have keep: "players r5 s = Some (pl\<lparr>pieces := full_hand\<rparr>)"
    if pl: "players room s = Some pl"
      and nl: "choice_001 (Some pl) (pendingDecisions room s) \<noteq> ''leave''"
      and ns: "choice_001 (Some pl) (pendingDecisions room s) \<noteq> ''spectate''"
    for s pl
  proof (cases s)
    case A
    with pl nl ns have "players r2 A = Some pl"
      by (simp add: p2 p1 cA_def)
    with p3 p4 have "players r4 A = Some pl" by simp
    with A show ?thesis by (simp add: p5 reset_pieces_def)
  next
    case B
    with pl nl ns have "players r2 B = Some pl"
      by (simp add: p2 p1 cB_def)
    with p3 p4 have "players r4 B = Some pl" by simp
    with B show ?thesis by (simp add: p5 reset_pieces_def)
  qed
  show ?thesis unfolding R using r5 o5 keep by blast
qed
























text \<open>
  Why the case in which only the player of \<open>B\<close> continues is left out of the
  statement: \<^verbatim>\<open>r.players[s] = survivors.shift()\<close> then seats that player in slot \<open>A\<close>
  without writing the \<^verbatim>\<open>playerSlot\<close> of the player's socket (which
  \<^verbatim>\<open>promoteFromQueue\<close> does for the connection it promotes). After \<open>a\<close> chose
  \<^verbatim>\<open>leave\<close> and \<open>b\<close> chose \<^verbatim>\<open>continue\<close>, \<open>b\<close> is the player of \<open>A\<close> and \<open>a\<close> is
  promoted into \<open>B\<close>, both sockets record \<open>B\<close>, and it is the turn of \<open>A\<close>.
\<close>

lemma reseated_survivor_keeps_recorded_slot:
  "map_option (\<lambda>r. (map_option player_id (players r A), map_option player_id (players r B),
                     currentTurn r, started r))
     (rooms (fst (postgame_decision ''b'' (Some ''continue'')
               (fst (postgame_decision ''a'' (Some ''leave'') won_srv)))) ''x'')
     = Some (Some ''b'', Some ''a'', Some A, True)
 \<and> map_option playerSlot
     (sockets (fst (postgame_decision ''b'' (Some ''continue'')
                 (fst (postgame_decision ''a'' (Some ''leave'') won_srv)))) ''b'') = Some (PlayerSlot B)
 \<and> map_option playerSlot
     (sockets (fst (postgame_decision ''b'' (Some ''continue'')
                 (fst (postgame_decision ''a'' (Some ''leave'') won_srv)))) ''a'') = Some (PlayerSlot B)"
  by code_simp

section \<open>The handlers that do keep these properties\<close>

text \<open>
  The \<^verbatim>\<open>place_piece\<close> handlers of the variants 000 and 001 check the destination
  before they pop the source. On boards of the right shape a request of type
  \<open>payload\<close> (one of the two action tags, one of the three size names) that is not
  acknowledged with \<^verbatim>\<open>ok\<close> leaves the whole process state as it was, broadcast log
  included.
\<close>

lemma cell_at_SomeD:
  "cell_at b r c = Some st \<Longrightarrow> r < length b \<and> c < length (b ! r) \<and> st = b ! r ! c"
  by (auto simp add: cell_at_def split: if_splits)

lemma canPlace_000_in_range:
  "canPlaceAt_000 b r c sz = Some v \<Longrightarrow> r < length b \<and> c < length (b ! r)"
  by (auto simp add: canPlaceAt_000_def dest: cell_at_SomeD split: option.splits)

lemma canPlace_001_in_range:
  "canPlaceAt_001 b r c sz = Some v \<Longrightarrow> r < length b \<and> c < length (b ! r)"
  by (auto simp add: canPlaceAt_001_def dest: cell_at_SomeD split: option.splits)

lemma wf_board_set_cell:
  assumes "wf_board b"
  shows "wf_board (set_cell b r c st)"
proof -
  have len: "length b = 3" and rows: "\<And>n. n < 3 \<Longrightarrow> length (b ! n) = 3"
    using assms by (simp_all add: wf_board_def list_all_length)
  have "length (b[r := (b ! r)[c := st]] ! n) = 3" if "n < 3" for n
  proof (cases "r = n")
    case True
    with that len rows show ?thesis by simp
  next
    case False
    with that rows show ?thesis by simp
  qed
  with len show ?thesis by (simp add: wf_board_def set_cell_def list_all_length)
qed

lemma try_move_error_unchanged:
  "snd (try_move cp s p r) = Some e \<Longrightarrow> fst (try_move cp s p r) = r"
  by (auto simp add: try_move_def Let_def split: payload.splits option.splits if_splits bool.splits)

lemma try_move_wf:
  "wf_board (board r) \<Longrightarrow> wf_board (board (fst (try_move cp s p r)))"
  by (auto simp add: try_move_def Let_def push_cell_def pop_cell_def wf_board_set_cell
      split: payload.splits option.splits if_splits bool.splits)

lemma checkWinner_000_total: "wf_board b \<Longrightarrow> checkWinner_000 b \<noteq> None"
  using winner_scan_total [OF _ L_ok, of b]
  by (simp add: checkWinner_000_def lines_000_def L_def scan_eq_000 [symmetric])

lemma checkWinner_001_total: "wf_board b \<Longrightarrow> checkWinner_001 b \<noteq> None"
  using winner_scan_total [OF _ L_ok, of b]
  by (simp add: checkWinner_001_def lines_001_def L_def scan_eq_000 scan_eq_001 [symmetric])

lemma world_rooms_same: "rooms w rid = Some r \<Longrightarrow> w\<lparr>rooms := (rooms w)(rid \<mapsto> r)\<rparr> = w"
  by (simp add: map_upd_triv)

lemma place_piece_000_rejected_unchanged:
  assumes wf: "\<And>rid r. rooms w rid = Some r \<Longrightarrow> wf_board (board r)"
    and rej: "snd (place_piece_000 sid p w) \<noteq> Some ack_ok"
  shows "fst (place_piece_000 sid p w) = w"
proof (cases "sockets w sid")
  case None
  then show ?thesis by (simp add: place_piece_000_def)
next
  case (Some sk)
  show ?thesis
  proof (cases "room_of w sk")
    case None
    with Some show ?thesis by (simp add: place_piece_000_def)
  next
    case (Some rr)
    then obtain rid r where rr: "rr = (rid, r)"
      and rid: "sock_roomID sk = Some rid" "rooms w rid = Some r"
      by (auto simp add: room_of_def split: option.splits)
    note Some = Some [unfolded rr]
    note wfr = wf [OF rid(2)]
    show ?thesis
    proof (cases "playerSlot sk")
      case (PlayerSlot s)
      show ?thesis
      proof (cases "snd (try_move canPlaceAt_000 s p r)")
        case None
        have "checkWinner_000 (board (fst (try_move canPlaceAt_000 s p r))) \<noteq> None"
          using try_move_wf [OF wfr] by (rule checkWinner_000_total)
        with None rej \<open>sockets w sid = Some sk\<close> \<open>room_of w sk = Some (rid, r)\<close> rid PlayerSlot show ?thesis
          by (auto simp add: place_piece_000_def Let_def world_rooms_same split: option.splits if_splits)
      next
        case (Some e)
        from try_move_error_unchanged [OF Some] rid \<open>sockets w sid = Some sk\<close> \<open>room_of w sk = Some (rid, r)\<close> PlayerSlot Some
        show ?thesis
          by (simp add: place_piece_000_def Let_def world_rooms_same)
      qed
    next
      case spectator
      with Some \<open>sockets w sid = Some sk\<close> show ?thesis by (simp add: place_piece_000_def)
    next
      case no_slot
      with Some \<open>sockets w sid = Some sk\<close> show ?thesis by (simp add: place_piece_000_def)
    qed
  qed
qed

lemma place_piece_001_rejected_unchanged:
  assumes wf: "\<And>rid r. rooms w rid = Some r \<Longrightarrow> wf_board (board r)"
    and rej: "snd (place_piece_001 sid p w) \<noteq> Some ack_ok"
  shows "fst (place_piece_001 sid p w) = w"
proof (cases "sockets w sid")
  case None
  then show ?thesis by (simp add: place_piece_001_def)
next
  case (Some sk)
  show ?thesis
  proof (cases "room_of w sk")
    case None
    with Some show ?thesis by (simp add: place_piece_001_def)
  next
    case (Some rr)
    then obtain rid r where rr: "rr = (rid, r)"
      and rid: "sock_roomID sk = Some rid" "rooms w rid = Some r"
      by (auto simp add: room_of_def split: option.splits)
    note Some = Some [unfolded rr]
    note wfr = wf [OF rid(2)]
    show ?thesis
    proof (cases "playerSlot sk")
      case (PlayerSlot s)
      show ?thesis
      proof (cases "snd (try_move canPlaceAt_001 s p r)")
        case None
        have "checkWinner_001 (board (fst (try_move canPlaceAt_001 s p r))) \<noteq> None"
          using try_move_wf [OF wfr] by (rule checkWinner_001_total)
        with None rej \<open>sockets w sid = Some sk\<close> \<open>room_of w sk = Some (rid, r)\<close> rid PlayerSlot show ?thesis
          by (auto simp add: place_piece_001_def Let_def world_rooms_same split: option.splits if_splits)
      next
        case (Some e)
        from try_move_error_unchanged [OF Some] rid \<open>sockets w sid = Some sk\<close> \<open>room_of w sk = Some (rid, r)\<close> PlayerSlot Some
        show ?thesis
          by (simp add: place_piece_001_def Let_def world_rooms_same)
      qed
    next
      case spectator
      with Some \<open>sockets w sid = Some sk\<close> show ?thesis by (simp add: place_piece_001_def)
    next
      case no_slot
      with Some \<open>sockets w sid = Some sk\<close> show ?thesis by (simp add: place_piece_001_def)
    qed
  qed
qed

text \<open>
  In the variants 000 and 001 every \<^verbatim>\<open>place_piece\<close> request of type \<open>payload\<close>,
  accepted or rejected, keeps hand plus pieces on the board constant for each occupied
  slot of every room. (A request with a size name outside the size table is not of
  that type; the handlers would place such a piece without taking one from the hand.)
\<close>

lemma sum_list_map_update:
  "k < length xs \<Longrightarrow> sum_list (map f (xs[k := x])) + f (xs ! k) = sum_list (map f xs) + (f x :: nat)"
proof (induction xs arbitrary: k)
  case Nil
  then show ?case by simp
next
  case (Cons y ys)
  then show ?case by (cases k) auto
qed

lemma owned_set_cell:
  assumes "r < length b" and "c < length (b ! r)"
  shows "owned_on_board s (set_cell b r c st) + owned_in_stack s (b ! r ! c)
           = owned_on_board s b + owned_in_stack s st"
proof -
  let ?g = "\<lambda>row. sum_list (map (owned_in_stack s) row)"
  have row: "?g ((b ! r)[c := st]) + owned_in_stack s (b ! r ! c) = ?g (b ! r) + owned_in_stack s st"
    using sum_list_map_update [OF assms(2), of "owned_in_stack s" st] by simp
  have "sum_list (map ?g (b[r := (b ! r)[c := st]])) + ?g (b ! r)
          = sum_list (map ?g b) + ?g ((b ! r)[c := st])"
    using sum_list_map_update [OF assms(1), of ?g "(b ! r)[c := st]"] by simp
  with row show ?thesis by (simp add: owned_on_board_def set_cell_def)
qed

lemma owned_push_cell:
  assumes "r < length b" and "c < length (b ! r)"
  shows "owned_on_board s (push_cell b r c p) = owned_on_board s b + (if owner p = s then 1 else 0)"
  using owned_set_cell [OF assms, of s "b ! r ! c @ [p]"]
  by (simp add: push_cell_def owned_in_stack_def)

lemma owned_in_stack_last:
  "xs \<noteq> [] \<Longrightarrow>
     owned_in_stack s xs = owned_in_stack s (butlast xs) + (if owner (last xs) = s then 1 else 0)"
  by (induction xs rule: rev_induct) (simp_all add: owned_in_stack_def)

lemma owned_pop_cell:
  assumes "r < length b" and "c < length (b ! r)" and "b ! r ! c \<noteq> []"
  shows "owned_on_board s (pop_cell b r c) + (if owner (last (b ! r ! c)) = s then 1 else 0)
           = owned_on_board s b"
  using owned_set_cell [OF assms(1,2), of s "butlast (b ! r ! c)"] owned_in_stack_last [OF assms(3), of s]
  by (simp add: pop_cell_def)

lemma length_set_cell: "length (set_cell b r c st) = length b"
  by (simp add: set_cell_def)

lemma row_length_set_cell: "length (set_cell b r c st ! n) = length (b ! n)"
proof (cases "r < length b")
  case True
  then show ?thesis by (cases "r = n") (simp_all add: set_cell_def)
next
  case False
  then have "b[r := (b ! r)[c := st]] = b" by (simp add: list_update_beyond)
  then show ?thesis by (simp add: set_cell_def)
qed

lemma try_move_conserves:
  assumes cp: "\<forall>b r c sz v. cp b r c sz = Some v \<longrightarrow> r < length b \<and> c < length (b ! r)"
    and pl: "players r t = Some pl"
  shows "\<exists>pl'. players (fst (try_move cp s p r)) t = Some pl'
           \<and> hand_total pl' + int (owned_on_board t (board (fst (try_move cp s p r))))
               = hand_total pl + int (owned_on_board t (board r))"
proof (cases "snd (try_move cp s p r)")
  case (Some e)
  from try_move_error_unchanged [OF Some] pl show ?thesis by simp
next
  case None
  show ?thesis
  proof (cases p)
    case (place_from_hand sz to)
    from None place_from_hand obtain player where
      player: "players r s = Some player"
      and ok: "cp (board r) (fst to) (snd to) sz = Some True"
      and res: "fst (try_move cp s p r)
                 = r\<lparr>board := push_cell (board r) (fst to) (snd to)
                                \<lparr>owner = s, piece_size = sz, color = player_color player\<rparr>,
                     players := (players r)(s \<mapsto>
                                  player\<lparr>pieces := (pieces player)(sz := pieces player sz - 1)\<rparr>)\<rparr>"
      by (auto simp add: try_move_def split: option.splits if_splits bool.splits)
    note rng = cp [rule_format, OF ok]
    have h: "hand_total (player\<lparr>pieces := (pieces player)(sz := pieces player sz - 1)\<rparr>)
               = hand_total player - 1"
      by (cases sz) (simp_all add: hand_total_def)
    show ?thesis
    proof (cases "t = s")
      case True
      with pl player have "pl = player" by simp
      with True res h rng show ?thesis by (simp add: owned_push_cell)
    next
      case False
      with pl res rng show ?thesis by (simp add: owned_push_cell)
    qed
  next
    case (move_on_board src dst)
    from None move_on_board obtain srcStack where
      srcs: "cell_at (board r) (fst src) (snd src) = Some srcStack" "srcStack \<noteq> []"
      and ok: "cp (board r) (fst dst) (snd dst) (piece_size (last srcStack)) = Some True"
      and res: "fst (try_move cp s p r)
                 = r\<lparr>board := push_cell (pop_cell (board r) (fst src) (snd src))
                                 (fst dst) (snd dst) (last srcStack)\<rparr>"
      by (auto simp add: try_move_def Let_def split: option.splits if_splits bool.splits)
    from cell_at_SomeD [OF srcs(1)] have
      fr: "fst src < length (board r)" "snd src < length (board r ! fst src)"
      and st: "srcStack = board r ! fst src ! snd src" by simp_all
    note rng = cp [rule_format, OF ok]
    have rng': "fst dst < length (pop_cell (board r) (fst src) (snd src))"
      "snd dst < length (pop_cell (board r) (fst src) (snd src) ! fst dst)"
      using rng by (simp_all add: pop_cell_def length_set_cell row_length_set_cell)
    have "owned_on_board t (push_cell (pop_cell (board r) (fst src) (snd src))
                                 (fst dst) (snd dst) (last srcStack))
            = owned_on_board t (board r)"
      using owned_pop_cell [OF fr, of t] srcs(2) st
      by (simp add: owned_push_cell [OF rng'])
    with pl res show ?thesis by simp
  qed
qed

lemma place_piece_000_conserves:
  assumes "rooms w rid = Some r" and "players r t = Some pl"
  shows "\<exists>r' pl'. rooms (fst (place_piece_000 sid p w)) rid = Some r' \<and> players r' t = Some pl'
           \<and> hand_total pl' + int (owned_on_board t (board r'))
               = hand_total pl + int (owned_on_board t (board r))"
proof -
  have same: ?thesis if "fst (place_piece_000 sid p w) = w"
    using that assms by simp
  show ?thesis
  proof (cases "sockets w sid")
    case None
    then show ?thesis by (intro same) (simp add: place_piece_000_def)
  next
    case (Some sk)
    show ?thesis
    proof (cases "room_of w sk")
      case None
      with Some show ?thesis by (intro same) (simp add: place_piece_000_def)
    next
      case (Some rr)
      then obtain rid0 r0 where rr: "rr = (rid0, r0)"
        and rid0: "sock_roomID sk = Some rid0" "rooms w rid0 = Some r0"
        by (auto simp add: room_of_def split: option.splits)
      note Some = Some [unfolded rr]
      show ?thesis
      proof (cases "playerSlot sk")
        case (PlayerSlot s)
        show ?thesis
        proof (cases "rid0 = rid")
          case True
          with rid0 assms have r0: "r0 = r" by simp
          have inr: "\<forall>b r c sz v. canPlaceAt_000 b r c sz = Some v \<longrightarrow> r < length b \<and> c < length (b ! r)"
            using canPlace_000_in_range by blast
          from try_move_conserves [OF inr assms(2), where s = s and p = p]
          obtain pl' where
            pl': "players (fst (try_move canPlaceAt_000 s p r)) t = Some pl'"
            "hand_total pl' + int (owned_on_board t (board (fst (try_move canPlaceAt_000 s p r))))
               = hand_total pl + int (owned_on_board t (board r))"
            by blast
          with \<open>sockets w sid = Some sk\<close> \<open>room_of w sk = Some (rid0, r0)\<close> rid0 PlayerSlot True r0 assms show ?thesis
            by (auto simp add: place_piece_000_def Let_def world_simps split: option.splits)
        next
          case False
          with \<open>sockets w sid = Some sk\<close> \<open>room_of w sk = Some (rid0, r0)\<close> rid0 PlayerSlot assms show ?thesis
            by (auto simp add: place_piece_000_def Let_def world_simps split: option.splits)
        qed
      next
        case spectator
        with Some \<open>sockets w sid = Some sk\<close> show ?thesis
          by (intro same) (simp add: place_piece_000_def)
      next
        case no_slot
        with Some \<open>sockets w sid = Some sk\<close> show ?thesis
          by (intro same) (simp add: place_piece_000_def)
      qed
    qed
  qed
qed

lemma place_piece_001_conserves:
  assumes "rooms w rid = Some r" and "players r t = Some pl"
  shows "\<exists>r' pl'. rooms (fst (place_piece_001 sid p w)) rid = Some r' \<and> players r' t = Some pl'
           \<and> hand_total pl' + int (owned_on_board t (board r'))
               = hand_total pl + int (owned_on_board t (board r))"
proof -
  have same: ?thesis if "fst (place_piece_001 sid p w) = w"
    using that assms by simp
  show ?thesis
  proof (cases "sockets w sid")
    case None
    then show ?thesis by (intro same) (simp add: place_piece_001_def)
  next
    case (Some sk)
    show ?thesis
    proof (cases "room_of w sk")
      case None
      with Some show ?thesis by (intro same) (simp add: place_piece_001_def)
    next
      case (Some rr)
      then obtain rid0 r0 where rr: "rr = (rid0, r0)"
        and rid0: "sock_roomID sk = Some rid0" "rooms w rid0 = Some r0"
        by (auto simp add: room_of_def split: option.splits)
      note Some = Some [unfolded rr]
      show ?thesis
      proof (cases "playerSlot sk")
        case (PlayerSlot s)
        show ?thesis
        proof (cases "rid0 = rid")
          case True
          with rid0 assms have r0: "r0 = r" by simp
          have inr: "\<forall>b r c sz v. canPlaceAt_001 b r c sz = Some v \<longrightarrow> r < length b \<and> c < length (b ! r)"
            using canPlace_001_in_range by blast
          from try_move_conserves [OF inr assms(2), where s = s and p = p]
          obtain pl' where
            pl': "players (fst (try_move canPlaceAt_001 s p r)) t = Some pl'"
            "hand_total pl' + int (owned_on_board t (board (fst (try_move canPlaceAt_001 s p r))))
               = hand_total pl + int (owned_on_board t (board r))"
            by blast
          with \<open>sockets w sid = Some sk\<close> \<open>room_of w sk = Some (rid0, r0)\<close> rid0 PlayerSlot True r0 assms show ?thesis
            by (auto simp add: place_piece_001_def Let_def world_simps split: option.splits)
        next
          case False
          with \<open>sockets w sid = Some sk\<close> \<open>room_of w sk = Some (rid0, r0)\<close> rid0 PlayerSlot assms show ?thesis
            by (auto simp add: place_piece_001_def Let_def world_simps split: option.splits)
        qed
      next
        case spectator
        with Some \<open>sockets w sid = Some sk\<close> show ?thesis
          by (intro same) (simp add: place_piece_001_def)
      next
        case no_slot
        with Some \<open>sockets w sid = Some sk\<close> show ?thesis
          by (intro same) (simp add: place_piece_001_def)
      qed
    qed
  qed
qed

text \<open>
  \<^verbatim>\<open>evaluatePostGame\<close> of \<^verbatim>\<open>server.js\<close> does nothing unless both decisions are stored,
  and the \<^verbatim>\<open>post_game_decision\<close> handler of variant 001 only stores and announces the
  decision while an occupied slot is undecided; when every occupied slot has decided
  it resolves, and the room ends with no winner and no stored decision.
\<close>

lemma evaluatePostGame_noop:
  assumes "rooms w rid = None
           \<or> (\<exists>r. rooms w rid = Some r \<and> (\<not> truthy (postDecisions r A) \<or> \<not> truthy (postDecisions r B)))"
  shows "evaluatePostGame rid w = w"
  using assms by (auto simp add: evaluatePostGame_def)

lemma post_game_decision_waits:
  assumes "sockets w sid = Some sk" and "sock_roomID sk = Some rid" and "rooms w rid = Some r"
    and "winner r \<noteq> None" and "playerSlot sk = PlayerSlot s"
    and "\<exists>t. players r t \<noteq> None \<and> \<not> truthy (((pendingDecisions r)(s := d)) t)"
  shows "post_game_decision sid d w
           = emit (ToRoomExcept rid sid) (opponent_decided s)
               (w\<lparr>rooms := (rooms w)(rid \<mapsto> r\<lparr>pendingDecisions := (pendingDecisions r)(s := d)\<rparr>)\<rparr>)"
proof -
  from assms(6) obtain t where t: "players r t \<noteq> None" "\<not> truthy (((pendingDecisions r)(s := d)) t)"
    by blast
  show ?thesis
  proof (cases t)
    case A
    with t assms(1-5) show ?thesis by (auto simp add: post_game_decision_def room_of_def Let_def)
  next
    case B
    with t assms(1-5) show ?thesis by (auto simp add: post_game_decision_def room_of_def Let_def)
  qed
qed

lemma post_game_decision_resolves:
  assumes "sockets w sid = Some sk" and "sock_roomID sk = Some rid" and "rooms w rid = Some r"
    and "winner r \<noteq> None" and "playerSlot sk = PlayerSlot s"
    and "\<forall>t. players r t \<noteq> None \<longrightarrow> truthy (((pendingDecisions r)(s := d)) t)"
  shows "\<exists>r'. rooms (post_game_decision sid d w) rid = Some r'
           \<and> winner r' = None \<and> pendingDecisions r' = (\<lambda>_. None)"
proof -
  let ?w1 = "emit (ToRoomExcept rid sid) (opponent_decided s)
               (w\<lparr>rooms := (rooms w)(rid \<mapsto> r\<lparr>pendingDecisions := (pendingDecisions r)(s := d)\<rparr>)\<rparr>)"
  have r1: "rooms ?w1 rid = Some (r\<lparr>pendingDecisions := (pendingDecisions r)(s := d)\<rparr>)"
    by (simp add: emit_def)
  have "post_game_decision sid d w = resolveGameDecisions rid ?w1"
    using assms by (auto simp add: post_game_decision_def room_of_def Let_def)
  with resolveGameDecisions_room [OF r1] show ?thesis by auto
qed

end
